theory Spec2Isabelle
  imports Complex_Main "HOL-Library.Sublist"
begin

chapter \<open>The embedding projector's data layer: parsing, datasets, nearest neighbours\<close>

section \<open>JavaScript values\<close>

text \<open>
  JavaScript numbers are IEEE doubles. The functions verified here never look inside a
  number: they convert strings to numbers, ask whether a number is NaN, compare,
  multiply, round and print numbers. The type of numbers is therefore a type parameter
  \<open>'n\<close>, and the built-ins the source calls are the fields of a record that every
  definition takes as its first argument.
\<close>

record 'n js =
  jsNumber :: "string \<Rightarrow> 'n"            \<comment> \<open>\<open>Number(s)\<close>, \<open>+s\<close> on a string\<close>
  jsIsNaN :: "'n \<Rightarrow> bool"               \<comment> \<open>\<open>isNaN(n)\<close> on a number\<close>
  jsString :: "'n \<Rightarrow> string"             \<comment> \<open>\<open>String(n)\<close>: a number used as a property key\<close>
  jsIndex :: "'n \<Rightarrow> nat option"          \<comment> \<open>the array index a number denotes as a key (\<open>Some i\<close>
                                          when its key is the canonical string of \<open>i\<close>)\<close>
  jsFloat32 :: "'n \<Rightarrow> 'n"               \<comment> \<open>the value a \<open>Float32Array\<close> holds after storing a number\<close>
  jsMin :: "'n \<Rightarrow> 'n \<Rightarrow> 'n"              \<comment> \<open>\<open>Math.min\<close>\<close>
  jsMax :: "'n \<Rightarrow> 'n \<Rightarrow> 'n"              \<comment> \<open>\<open>Math.max\<close>\<close>
  POSITIVE_INFINITY :: 'n
  NEGATIVE_INFINITY :: 'n
  MAX_VALUE :: 'n                        \<comment> \<open>\<open>Number.MAX_VALUE\<close>\<close>
  jsNaN :: 'n                            \<comment> \<open>\<open>NaN\<close>, also what an array read out of range converts to\<close>
  jsTruthy :: "'n \<Rightarrow> bool"              \<comment> \<open>a number as a condition: not \<open>0\<close> and not \<open>NaN\<close>\<close>
  jsNonNegative :: "'n \<Rightarrow> bool"         \<comment> \<open>\<open>x >= 0\<close>\<close>
  jsOneMinus :: "'n \<Rightarrow> 'n"              \<comment> \<open>\<open>1 - x\<close>\<close>
  jsOfInt :: "int \<Rightarrow> 'n"                \<comment> \<open>an integer literal of the source (\<open>0\<close>, \<open>3\<close>)\<close>
  jsTimes :: "'n \<Rightarrow> 'n \<Rightarrow> 'n"            \<comment> \<open>\<open>x * y\<close>, the product rounded to a double\<close>
  jsFloor :: "'n \<Rightarrow> 'n"                 \<comment> \<open>\<open>Math.floor\<close>\<close>
  jsStrictEq :: "'n \<Rightarrow> 'n \<Rightarrow> bool"       \<comment> \<open>\<open>x === y\<close> on numbers (false when either is \<open>NaN\<close>)\<close>

text \<open>A metadata value is a string or a number; parsing also stores \<open>null\<close> for an
  empty field and \<open>undefined\<close> for a field the row does not have.\<close>

datatype 'n mval = MUndefined | MNull | MStr string | MNum 'n

text \<open>\<open>interface PointMetadata { [key: string]: number|string; }\<close>: an object read as
  a map from its own keys. Members inherited from \<open>Object.prototype\<close> (a column
  called \<open>constructor\<close>) are outside the model.\<close>

type_synonym 'n PointMetadata = "string \<Rightarrow> 'n mval option"

record 'n DataPoint =
  vector :: "'n list"
  metadata :: "'n PointMetadata"
  sequenceIndex :: "nat option"
  index :: nat
  projections :: "string \<Rightarrow> 'n option"

record 'n NearestEntry =
  entryIndex :: nat
  dist :: 'n

text \<open>An array of neighbour lists made by \<open>new Array(N)\<close> and filled by index: a slot
  never assigned is \<open>None\<close>.\<close>

type_synonym 'n NearestTable = "'n NearestEntry list option list"

text \<open>The \<open>count\<close> of a unique entry is a number that starts at \<open>1\<close> and is
  incremented, or \<open>NaN\<close> (see \<open>countValue\<close> below).\<close>

datatype counter = Count nat | NaNCount

record UniqueEntry =
  label :: string
  count :: counter

record 'n ColumnStats =
  name :: string
  isNumeric :: bool
  tooManyUniqueValues :: bool
  uniqueEntries :: "UniqueEntry list option"
  min_stat :: 'n
  max_stat :: 'n

text \<open>\<open>SpriteAndMetadataInfo\<close>; the sprite image and its descriptor play no part in
  the functions below and are left out.\<close>

record 'n SpriteAndMetadataInfo =
  stats :: "'n ColumnStats list option"
  pointsInfo :: "'n PointMetadata list option"

record Sequence =
  pointIndices :: "nat list"

section \<open>The dataset\<close>

record ('n, 'e) DataSet =
  points :: "'n DataPoint list"
  sequences :: "Sequence list"
  shuffledDataIndices :: "nat list"
  dsProjections :: "string \<Rightarrow> bool option"
  nearest :: "'n NearestTable option"
  nearestK :: 'n
  tSNEIteration :: nat
  tSNEShouldPause :: bool
  tSNEShouldStop :: bool
  superviseFactor :: real
  superviseLabels :: "string list"
  superviseInput :: string
  dim :: "nat \<times> nat"
  hasTSNERun :: bool
  spriteAndMetadataInfo :: "'n SpriteAndMetadataInfo option"
  tsne :: "'e option"

subsection \<open>mergeMetadata\<close>

text \<open>\<open>pointsInfo.slice(0, N).forEach((m, i) => this.points[i].metadata = m)\<close>: the
  records are written onto the points by position; the slice is never longer than the
  point list.\<close>

fun assignMetadata :: "'n PointMetadata list \<Rightarrow> 'n DataPoint list \<Rightarrow> 'n DataPoint list" where
  "assignMetadata [] ps = ps"
| "assignMetadata (m # ms) [] = []"
| "assignMetadata (m # ms) (p # ps) = p\<lparr>metadata := m\<rparr> # assignMetadata ms ps"

text \<open>The first guard of the source, \<open>metadata.stats && metadata.stats.length === 1 &&
  this.points.length + 1 === metadata.pointsInfo.length\<close>, and the second one.\<close>

definition singleColumnHeader :: "('n, 'e) DataSet \<Rightarrow> 'n SpriteAndMetadataInfo \<Rightarrow> 'n PointMetadata list \<Rightarrow> bool" where
  "singleColumnHeader ds md pinfo =
     ((case stats md of None \<Rightarrow> False | Some st \<Rightarrow> length st = 1)
      \<and> int (length (points ds)) + 1 = int (length pinfo))"

definition missingHeader :: "('n, 'e) DataSet \<Rightarrow> 'n SpriteAndMetadataInfo \<Rightarrow> 'n PointMetadata list \<Rightarrow> bool" where
  "missingHeader ds md pinfo =
     ((case stats md of None \<Rightarrow> False | Some st \<Rightarrow> length st > 1)
      \<and> int (length (points ds)) - 1 = int (length pinfo))"

text \<open>The result is the returned boolean and the dataset after the call.\<close>

definition mergeMetadata :: "('n, 'e) DataSet \<Rightarrow> 'n SpriteAndMetadataInfo \<Rightarrow> bool \<times> ('n, 'e) DataSet" where
  "mergeMetadata ds md =
     (case pointsInfo md of
        None \<Rightarrow> (False, ds\<lparr>spriteAndMetadataInfo := Some md\<rparr>)
      | Some pinfo \<Rightarrow>
          if length pinfo \<noteq> length (points ds) \<and> singleColumnHeader ds md pinfo then (False, ds)
          else if length pinfo \<noteq> length (points ds) \<and> missingHeader ds md pinfo then (False, ds)
          else (True, ds\<lparr>spriteAndMetadataInfo := Some md,
                         points := assignMetadata (take (length (points ds)) pinfo) (points ds)\<rparr>))"

subsection \<open>Sequences\<close>

text \<open>\<open>const SEQUENCE_METADATA_ATTRS = ['__next__', '__seq_next__']\<close>\<close>

definition SEQUENCE_METADATA_ATTRS :: "string list" where
  "SEQUENCE_METADATA_ATTRS = [''__next__'', ''__seq_next__'']"

text \<open>The \<open>for ... of\<close> loop of \<open>getSequenceNextPointIndex\<close>: the first attribute that
  is a key of the metadata and whose value is not the empty string; \<open>None\<close> when the
  loop ends with \<open>sequenceAttr\<close> still \<open>null\<close>.\<close>

fun findSequenceAttr :: "string list \<Rightarrow> 'n PointMetadata \<Rightarrow> 'n mval option" where
  "findSequenceAttr [] md = None"
| "findSequenceAttr (a # as) md =
     (case md a of
        None \<Rightarrow> findSequenceAttr as md
      | Some v \<Rightarrow> if v \<noteq> MStr [] then Some v else findSequenceAttr as md)"

text \<open>\<open>if (sequenceAttr == null) return null; return +sequenceAttr;\<close> (\<open>== null\<close>
  holds of \<open>null\<close> and of \<open>undefined\<close>).\<close>

definition getSequenceNextPointIndex :: "'n js \<Rightarrow> 'n PointMetadata \<Rightarrow> 'n option" where
  "getSequenceNextPointIndex J md =
     (case findSequenceAttr SEQUENCE_METADATA_ATTRS md of
        None \<Rightarrow> None
      | Some MUndefined \<Rightarrow> None
      | Some MNull \<Rightarrow> None
      | Some (MStr s) \<Rightarrow> Some (jsNumber J s)
      | Some (MNum n) \<Rightarrow> Some n)"

text \<open>
  The inner loop of \<open>computeSequences\<close>:
  \<^verbatim>\<open>
  while (points[currentIndex]) {
      newSequence.pointIndices.push(currentIndex);
      next = getSequenceNextPointIndex(points[currentIndex].metadata);
      if (next != null) { indicesSeen[next] = 1; currentIndex = next; }
      else { currentIndex = -1; }
  }\<close>
  \<open>currentIndex\<close> is a point's position when the body runs. \<open>points[next]\<close> is a point
  exactly when \<open>next\<close> denotes an index below the length; a write to the
  \<open>Int8Array\<close> outside its range does nothing. The loop need not end, so it is a
  partial function: \<open>None\<close> is the loop that runs forever.
\<close>

partial_function (option) followSequence ::
  "'n js \<Rightarrow> 'n DataPoint list \<Rightarrow> nat \<Rightarrow> nat list \<Rightarrow> bool list \<Rightarrow> (nat list \<times> bool list) option" where
  "followSequence J pts currentIndex pis seen =
     (case getSequenceNextPointIndex J (metadata (pts ! currentIndex)) of
        None \<Rightarrow> Some (pis @ [currentIndex], seen)
      | Some nxt \<Rightarrow>
          (case jsIndex J nxt of
             None \<Rightarrow> Some (pis @ [currentIndex], seen)
           | Some j \<Rightarrow>
               if j < length pts
               then followSequence J pts j (pis @ [currentIndex]) (seen[j := True])
               else Some (pis @ [currentIndex], seen)))"

text \<open>The state of the outer loop: \<open>indicesSeen\<close>, \<open>indexToSequence\<close> and
  \<open>sequences\<close>. A \<open>Sequence\<close> object is shared between \<open>sequences\<close> and
  \<open>indexToSequence\<close>, and \<open>unshift\<close> changes it in place: \<open>indexToSequence\<close> holds
  the position of the sequence in \<open>sequences\<close>.\<close>

record seqState =
  indicesSeen :: "bool list"
  indexToSequence :: "nat \<Rightarrow> nat option"
  seqs :: "Sequence list"

text \<open>One round of the \<open>for\<close> loop, for \<open>i < points.length\<close>.\<close>

definition sequenceRound :: "'n js \<Rightarrow> 'n DataPoint list \<Rightarrow> nat \<Rightarrow> seqState \<Rightarrow> seqState option" where
  "sequenceRound J pts i st =
     (if indicesSeen st ! i then Some st
      else
        let st1 = st\<lparr>indicesSeen := (indicesSeen st)[i := True]\<rparr> in
        case getSequenceNextPointIndex J (metadata (pts ! i)) of
          None \<Rightarrow> Some st1
        | Some nxt \<Rightarrow>
            (case (case jsIndex J nxt of None \<Rightarrow> None | Some j \<Rightarrow> indexToSequence st1 j) of
               Some q \<Rightarrow>
                 Some (st1\<lparr>seqs := (seqs st1)[q := \<lparr>pointIndices = i # pointIndices (seqs st1 ! q)\<rparr>],
                           indexToSequence := (indexToSequence st1)(i \<mapsto> q)\<rparr>)
             | None \<Rightarrow>
                 (case followSequence J pts i [] (indicesSeen st1) of
                    None \<Rightarrow> None
                  | Some (pis, seen) \<Rightarrow>
                      Some (st1\<lparr>indicesSeen := seen,
                                indexToSequence := (indexToSequence st1)(i \<mapsto> length (seqs st1)),
                                seqs := seqs st1 @ [\<lparr>pointIndices = pis\<rparr>]\<rparr>))))"

fun sequenceRounds :: "'n js \<Rightarrow> 'n DataPoint list \<Rightarrow> nat list \<Rightarrow> seqState \<Rightarrow> seqState option" where
  "sequenceRounds J pts [] st = Some st"
| "sequenceRounds J pts (i # is) st =
     (case sequenceRound J pts i st of None \<Rightarrow> None | Some st' \<Rightarrow> sequenceRounds J pts is st')"

definition computeSequences :: "'n js \<Rightarrow> 'n DataPoint list \<Rightarrow> Sequence list option" where
  "computeSequences J pts =
     map_option seqs
       (sequenceRounds J pts [0 ..< length pts]
          \<lparr>indicesSeen = replicate (length pts) False, indexToSequence = Map.empty, seqs = []\<rparr>)"

subsection \<open>Construction\<close>

datatype error =
    TypeError            \<comment> \<open>a property read from \<open>undefined\<close> or \<open>null\<close>\<close>
  | DimensionMismatch    \<comment> \<open>\<open>Error('Parsing failed. Vector dimensions do not match')\<close>\<close>
  | DegenerateVector     \<comment> \<open>\<open>Error('Parsing failed. Found a vector with only one dimension?')\<close>\<close>
  | GpuFailure           \<comment> \<open>an exception out of a call of the \<open>weblas\<close> library\<close>

text \<open>
  \<open>new DataSet(points, spriteAndMetadataInfo)\<close>: the field initialisers, then the
  constructor body. \<open>util.shuffle\<close> is not among the sources and is a parameter. The
  outer \<open>option\<close> is the constructor that never returns (its sequence loop running
  forever); \<open>this.points[0].vector\<close> throws on an empty point list.
\<close>

definition newDataSet ::
  "'n js \<Rightarrow> (nat list \<Rightarrow> nat list) \<Rightarrow> 'n DataPoint list \<Rightarrow> 'n SpriteAndMetadataInfo option
     \<Rightarrow> (error + ('n, 'e) DataSet) option" where
  "newDataSet J shuffle pts info =
     (case computeSequences J pts of
        None \<Rightarrow> None
      | Some sq \<Rightarrow>
          (case pts of
             [] \<Rightarrow> Some (Inl TypeError)
           | p # _ \<Rightarrow>
               Some (Inr \<lparr>points = pts, sequences = sq,
                  shuffledDataIndices = shuffle [0 ..< length pts],
                  dsProjections = Map.empty, nearest = Some [], nearestK = jsOfInt J 0,
                  tSNEIteration = 0, tSNEShouldPause = False, tSNEShouldStop = True,
                  superviseFactor = 0, superviseLabels = [], superviseInput = [],
                  dim = (length pts, length (vector p)), hasTSNERun = False,
                  spriteAndMetadataInfo = info, tsne = None\<rparr>)))"

subsection \<open>The t-SNE driver\<close>

text \<open>
  The optimizer (\<open>bh_tsne\<close>) is not among the sources; the driver uses it through the
  methods below, on an engine state of type \<open>'e\<close>. \<open>getSolution\<close> gives the flat
  coordinate array, read as \<open>result[j]\<close> for any \<open>j\<close>.
\<close>

record 'n tsneOpt =
  optEpsilon :: 'n
  optPerplexity :: 'n
  optDim :: nat

record ('n, 'e) TSNE =
  newTSNE :: "'n tsneOpt \<Rightarrow> 'e"
  setSupervisionE :: "string list \<Rightarrow> string \<Rightarrow> 'e \<Rightarrow> 'e"
  setSuperviseFactorE :: "real \<Rightarrow> 'e \<Rightarrow> 'e"
  initDataDist :: "'n NearestTable \<Rightarrow> 'e \<Rightarrow> 'e"
  stepE :: "'e \<Rightarrow> 'e"
  getSolution :: "'e \<Rightarrow> nat \<Rightarrow> 'n"
  perturbE :: "'e \<Rightarrow> 'e"
  getDim :: "'e \<Rightarrow> nat"

definition TSNE_SAMPLE_SIZE :: nat where
  "TSNE_SAMPLE_SIZE = 10000"

text \<open>The body of the \<open>forEach\<close> over the sampled indices, on the point it finds.\<close>

definition writeProjections :: "(nat \<Rightarrow> 'n) \<Rightarrow> nat \<Rightarrow> nat \<Rightarrow> 'n DataPoint \<Rightarrow> 'n DataPoint" where
  "writeProjections result tsneDim i dataPoint =
     (let p0 = (projections dataPoint)(''tsne-0'' \<mapsto> result (i * tsneDim + 0));
          p1 = p0(''tsne-1'' \<mapsto> result (i * tsneDim + 1));
          p2 = (if tsneDim = 3 then p1(''tsne-2'' \<mapsto> result (i * tsneDim + 2)) else p1)
      in dataPoint\<lparr>projections := p2\<rparr>)"

text \<open>\<open>sampledIndices.forEach((index, i) => ...)\<close>, from position \<open>i\<close> on. An index
  with no point makes \<open>dataPoint.projections\<close> throw: the points written so far and
  \<open>False\<close>.\<close>

fun writeSolution :: "(nat \<Rightarrow> 'n) \<Rightarrow> nat \<Rightarrow> nat list \<Rightarrow> nat \<Rightarrow> 'n DataPoint list \<Rightarrow> 'n DataPoint list \<times> bool" where
  "writeSolution result tsneDim [] i pts = (pts, True)"
| "writeSolution result tsneDim (ix # rest) i pts =
     (if ix < length pts
      then writeSolution result tsneDim rest (Suc i) (pts[ix := writeProjections result tsneDim i (pts ! ix)])
      else (pts, False))"

text \<open>
  A run as the scheduler sees it: the dataset, the arguments the step callback has been
  called with so far (\<open>None\<close> is \<open>null\<close>), and whether a call of the \<open>step\<close> closure
  is scheduled (by \<open>requestAnimationFrame\<close>, or as the continuation of the
  initialisation).
\<close>

record ('n, 'e) run =
  ds :: "('n, 'e) DataSet"
  stepCalls :: "nat option list"
  scheduled :: bool

text \<open>
  The \<open>step\<close> closure of \<open>projectTSNE\<close>, which captures \<open>tsneDim\<close> and
  \<open>sampledIndices\<close>. An exception (the engine handle is \<open>null\<close>, or a sampled index
  has no point) leaves the closure before \<open>requestAnimationFrame\<close>.
\<close>

definition step :: "('n, 'e) TSNE \<Rightarrow> nat \<Rightarrow> nat list \<Rightarrow> ('n, 'e) run \<Rightarrow> ('n, 'e) run" where
  "step E tsneDim sampledIndices r =
     (let d = ds r in
      if tSNEShouldStop d then
        r\<lparr>ds := d\<lparr>dsProjections := (dsProjections d)(''tsne'' \<mapsto> False), tsne := None,
                    hasTSNERun := False\<rparr>,
          stepCalls := stepCalls r @ [None],
          scheduled := False\<rparr>
      else if \<not> tSNEShouldPause d then
        (case tsne d of
           None \<Rightarrow> r\<lparr>scheduled := False\<rparr>
         | Some e \<Rightarrow>
             let e' = stepE E e;
                 (pts, ok) = writeSolution (getSolution E e') tsneDim sampledIndices 0 (points d)
             in if \<not> ok then r\<lparr>ds := d\<lparr>tsne := Some e', points := pts\<rparr>, scheduled := False\<rparr>
                else r\<lparr>ds := d\<lparr>tsne := Some e', points := pts,
                                 dsProjections := (dsProjections d)(''tsne'' \<mapsto> True),
                                 tSNEIteration := Suc (tSNEIteration d)\<rparr>,
                       stepCalls := stepCalls r @ [Some (Suc (tSNEIteration d))],
                       scheduled := True\<rparr>)
      else r\<lparr>scheduled := True\<rparr>)"

text \<open>The scheduler: each frame runs the scheduled call, if there is one.\<close>

fun frames :: "('n, 'e) TSNE \<Rightarrow> nat \<Rightarrow> nat list \<Rightarrow> nat \<Rightarrow> ('n, 'e) run \<Rightarrow> ('n, 'e) run" where
  "frames E tsneDim sampledIndices 0 r = r"
| "frames E tsneDim sampledIndices (Suc n) r =
     (if scheduled r then frames E tsneDim sampledIndices n (step E tsneDim sampledIndices r) else r)"

definition stopTSNE :: "('n, 'e) DataSet \<Rightarrow> ('n, 'e) DataSet" where
  "stopTSNE d = d\<lparr>tSNEShouldStop := True\<rparr>"

text \<open>
  \<open>perturbTsne\<close>. With an engine handle and \<open>hasTSNERun\<close> it perturbs the engine and
  republishes the solution; a sampled index with no point throws after the earlier
  points are written.
\<close>

definition perturbTsne :: "('n, 'e) TSNE \<Rightarrow> ('n, 'e) DataSet \<Rightarrow> ('n, 'e) DataSet" where
  "perturbTsne E d =
     (case tsne d of
        None \<Rightarrow> d
      | Some e \<Rightarrow>
          if hasTSNERun d then
            (let e' = perturbE E e;
                 sampledIndices = take TSNE_SAMPLE_SIZE (shuffledDataIndices d)
             in d\<lparr>tsne := Some e',
                  points := fst (writeSolution (getSolution E e') (getDim E e') sampledIndices 0 (points d))\<rparr>)
          else d)"

text \<open>\<open>sampledIndices.map((i) => this.points[i])\<close> puts \<open>undefined\<close> where an index
  has no point: the sampled data is a list of options.\<close>

definition sampledData :: "'n DataPoint list \<Rightarrow> nat list \<Rightarrow> 'n DataPoint option list" where
  "sampledData pts sampledIndices =
     map (\<lambda>i. if i < length pts then Some (pts ! i) else None) sampledIndices"

text \<open>\<open>const k = Math.floor(3 * perplexity)\<close>, in the arithmetic of doubles, and the
  test \<open>this.nearest != null && k === this.nearestK\<close>.\<close>

definition neighbourCount :: "'n js \<Rightarrow> 'n \<Rightarrow> 'n" where
  "neighbourCount J perplexity = jsFloor J (jsTimes J (jsOfInt J 3) perplexity)"

definition reusesNearest :: "'n js \<Rightarrow> ('n, 'e) DataSet \<Rightarrow> 'n \<Rightarrow> bool" where
  "reusesNearest J d k = (nearest d \<noteq> None \<and> jsStrictEq J k (nearestK d))"

text \<open>
  The callback of \<open>knnComputation.then\<close>, run when the promise resolves with a table:
  \<^verbatim>\<open>
  this.nearest = nearest;
  util.runAsyncTask('Initializing T-SNE...', () => { this.tsne.initDataDist(this.nearest); })
      .then(step);\<close>
  It is taken to run before anything else touches the dataset; \<open>e\<close> is the engine
  handle the run made.
\<close>

definition knnResolved :: "('n, 'e) TSNE \<Rightarrow> 'e \<Rightarrow> 'n NearestTable \<Rightarrow> ('n, 'e) run \<Rightarrow> ('n, 'e) run" where
  "knnResolved E e tbl r =
     r\<lparr>ds := (ds r)\<lparr>nearest := Some tbl, tsne := Some (initDataDist E tbl e)\<rparr>, scheduled := True\<rparr>"

text \<open>
  \<open>projectTSNE\<close> up to the point where the first \<open>step\<close> is due. The nearest-neighbour
  engine (\<open>findKNNGPUCosine\<close> or \<open>findKNN\<close>, chosen by \<open>KNN_GPU_ENABLED\<close>) is the
  parameter \<open>knn\<close>, with the outcomes of \<open>findKNNGPUCosine\<close> below: \<open>Some (Inr tbl)\<close>
  is a promise that resolves with a table, \<open>Some (Inl e)\<close> an exception thrown by the
  call, \<open>None\<close> a promise that is never resolved (there is no rejection handler: a
  rejected promise has the same effect). The source assigns \<open>this.nearestK\<close>
  before it calls the engine and \<open>this.nearest\<close> only in the callback: when the call
  throws or the promise stays pending, the dataset keeps the new \<open>nearestK\<close> beside
  the old table, and the call schedules no step.
\<close>

definition projectTSNE ::
  "'n js \<Rightarrow> ('n, 'e) TSNE \<Rightarrow> ('n DataPoint option list \<Rightarrow> 'n \<Rightarrow> (error + 'n NearestTable) option)
     \<Rightarrow> 'n \<Rightarrow> 'n \<Rightarrow> nat \<Rightarrow> ('n, 'e) run \<Rightarrow> ('n, 'e) run" where
  "projectTSNE J E knn perplexity learningRate tsneDim r =
     (let d = ds r;
          k = neighbourCount J perplexity;
          e0 = newTSNE E \<lparr>optEpsilon = learningRate, optPerplexity = perplexity, optDim = tsneDim\<rparr>;
          e1 = setSupervisionE E (superviseLabels d) (superviseInput d) e0;
          e2 = setSuperviseFactorE E (superviseFactor d) e1;
          d1 = d\<lparr>hasTSNERun := True, tsne := Some e2, tSNEShouldPause := False,
                 tSNEShouldStop := False, tSNEIteration := 0\<rparr>;
          sampledIndices = take TSNE_SAMPLE_SIZE (shuffledDataIndices d1)
      in case (if reusesNearest J d1 k then nearest d1 else None) of
           Some old \<Rightarrow> knnResolved E e2 old (r\<lparr>ds := d1\<rparr>)
         | None \<Rightarrow>
             (let d2 = d1\<lparr>nearestK := k\<rparr> in
              case knn (sampledData (points d2) sampledIndices) k of
                Some (Inr tbl) \<Rightarrow> knnResolved E e2 tbl (r\<lparr>ds := d2\<rparr>)
              | Some (Inl err) \<Rightarrow> r\<lparr>ds := d2\<rparr>
              | None \<Rightarrow> r\<lparr>ds := d2\<rparr>))"

section \<open>Streaming parser\<close>

text \<open>
  The buffer is read as text, one character per byte: the content is a \<open>string\<close>, and
  a chunk is a slice of it (a multi-byte UTF-8 character cut by a chunk boundary is
  outside the model).
\<close>

text \<open>\<open>str.split(delim)\<close> for a non-empty delimiter: the pieces between the
  occurrences of the delimiter, found from left to right. \<open>cur\<close> is the piece being
  read.\<close>

function splitFrom :: "string \<Rightarrow> string \<Rightarrow> string \<Rightarrow> string list" where
  "splitFrom d cur [] = [cur]"
| "splitFrom d cur (c # cs) =
     (if d \<noteq> [] \<and> prefix d (c # cs)
      then cur # splitFrom d [] (drop (length d) (c # cs))
      else splitFrom d (cur @ [c]) cs)"
  by pat_completeness auto
termination
  by (relation "measure (\<lambda>(d, cur, s). length s)") auto

text \<open>With the empty delimiter \<open>split\<close> cuts between all characters; it gives the
  empty array for the empty string.\<close>

definition jsSplit :: "string \<Rightarrow> string \<Rightarrow> string list" where
  "jsSplit str delim = (if delim = [] then map (\<lambda>c. [c]) str else splitFrom delim [] str)"

text \<open>
  The record callback is a function of the caller's state and the record; it may throw
  (\<open>Inl\<close>), which ends the parse where it stands, the promise never settled.
  \<open>deliver\<close> is a run of \<open>callback(...)\<close> calls.
\<close>

fun deliver :: "('s \<Rightarrow> string \<Rightarrow> 'x + 's) \<Rightarrow> 's \<Rightarrow> string list \<Rightarrow> 'x + 's" where
  "deliver callback st [] = Inr st"
| "deliver callback st (l # ls) =
     (case callback st l of Inl x \<Rightarrow> Inl x | Inr st' \<Rightarrow> deliver callback st' ls)"

text \<open>
  \<open>readChunk(offset, chunkSize)\<close> followed by the \<open>readHandler\<close> it schedules:
  \<^verbatim>\<open>
  offset += chunkSize;
  const parts = str.split(delim);
  const first = data + parts[0];
  if (parts.length === 1) { data = first; readChunk(offset, chunkSize); return; }
  data = parts[parts.length - 1];
  callback(first);
  for (let i = 1; i < parts.length - 1; i++) { callback(parts[i]); }
  if (offset >= bufferSize) { if (data) { callback(data); } resolve(); return; }
  readChunk(offset, chunkSize);\<close>
  with \<open>bufferSize = content.byteLength - 1\<close>. The result is \<open>None\<close> when the
  promise is never resolved and no callback throws: the chunks are read for ever.

  \<open>parts\<close> is empty only for an empty chunk and the empty delimiter; then \<open>parts[0]\<close>
  and the new \<open>data\<close> are \<open>undefined\<close>: the callback gets \<open>data + 'undefined'\<close>, and
  the falsy \<open>data\<close> is not delivered at the end. If the end is not reached there (a
  chunk size of 0), the JavaScript goes on for ever, calling the callback with
  \<open>NaN\<close>; callbacks are modelled on strings only.
\<close>

partial_function (option) readChunk ::
  "('s \<Rightarrow> string \<Rightarrow> 'x + 's) \<Rightarrow> string \<Rightarrow> nat \<Rightarrow> string \<Rightarrow> nat \<Rightarrow> string \<Rightarrow> 's \<Rightarrow> ('x + 's) option" where
  "readChunk callback content chunkSize delim offset data st =
     (case jsSplit (take chunkSize (drop offset content)) delim of
        [] \<Rightarrow>
          (case callback st (data @ ''undefined'') of
             Inl x \<Rightarrow> Some (Inl x)
           | Inr st' \<Rightarrow>
               if int (offset + chunkSize) \<ge> int (length content) - 1 then Some (Inr st') else None)
      | [p] \<Rightarrow> readChunk callback content chunkSize delim (offset + chunkSize) (data @ p) st
      | p # ps \<Rightarrow>
          (case deliver callback st ((data @ p) # butlast ps) of
             Inl x \<Rightarrow> Some (Inl x)
           | Inr st' \<Rightarrow>
               if int (offset + chunkSize) \<ge> int (length content) - 1
               then (if last ps \<noteq> [] then Some (callback st' (last ps)) else Some (Inr st'))
               else readChunk callback content chunkSize delim (offset + chunkSize) (last ps) st'))"

definition streamParse ::
  "string \<Rightarrow> ('s \<Rightarrow> string \<Rightarrow> 'x + 's) \<Rightarrow> 's \<Rightarrow> nat \<Rightarrow> string \<Rightarrow> ('x + 's) option" where
  "streamParse content callback st chunkSize delim = readChunk callback content chunkSize delim 0 [] st"

text \<open>The default arguments \<open>chunkSize = 1000000\<close> and \<open>delim = '\n'\<close>.\<close>

definition defaultChunkSize :: nat where
  "defaultChunkSize = 1000000"

definition newline :: string where
  "newline = [CHR 0x0A]"

text \<open>The callback that only collects the records it is given.\<close>

definition collect :: "string list \<Rightarrow> string \<Rightarrow> unit + string list" where
  "collect recs l = Inr (recs @ [l])"

section \<open>Tensor parsing\<close>

text \<open>\<open>String.prototype.trim\<close> on an ASCII string: the white space characters are
  tab, line feed, vertical tab, form feed, carriage return and space.\<close>

definition isWhiteSpace :: "char \<Rightarrow> bool" where
  "isWhiteSpace c = (c \<in> {CHR 0x09, CHR 0x0A, CHR 0x0B, CHR 0x0C, CHR 0x0D, CHR 0x20})"

definition jsTrim :: "string \<Rightarrow> string" where
  "jsTrim s = rev (dropWhile isWhiteSpace (rev (dropWhile isWhiteSpace s)))"

text \<open>What the line callback of \<open>parseTensors\<close> closes over: \<open>data\<close> and \<open>numDim\<close>
  (\<open>None\<close> while it is \<open>undefined\<close>).\<close>

record 'n tensorState =
  tData :: "'n DataPoint list"
  numDim :: "nat option"

text \<open>The test \<open>isNaN(row[0]) || numDim === row.length - 1\<close>.\<close>

definition takesLabel :: "'n js \<Rightarrow> nat option \<Rightarrow> string \<Rightarrow> string list \<Rightarrow> bool" where
  "takesLabel J nd first rest =
     (jsIsNaN J (jsNumber J first)
      \<or> (case nd of None \<Rightarrow> False | Some n \<Rightarrow> int n = int (length (first # rest)) - 1))"

text \<open>The callback. A line that is not empty after trimming has a first field, so the
  row is never the empty list.\<close>

definition tensorLine :: "'n js \<Rightarrow> string \<Rightarrow> 'n tensorState \<Rightarrow> string \<Rightarrow> error + 'n tensorState" where
  "tensorLine J valueDelim st line0 =
     (let line = jsTrim line0 in
      if line = [] then Inr st
      else
        case jsSplit line valueDelim of
          [] \<Rightarrow> Inr st
        | first # rest \<Rightarrow>
            let dataPoint =
                  (if takesLabel J (numDim st) first rest
                   then \<lparr>vector = map (\<lambda>f. jsFloat32 J (jsNumber J f)) rest,
                         metadata = [''label'' \<mapsto> MStr first], sequenceIndex = None,
                         index = length (tData st), projections = Map.empty\<rparr>
                   else \<lparr>vector = map (\<lambda>f. jsFloat32 J (jsNumber J f)) (first # rest),
                         metadata = Map.empty, sequenceIndex = None,
                         index = length (tData st), projections = Map.empty\<rparr>);
                nd = (case numDim st of None \<Rightarrow> length (vector dataPoint) | Some n \<Rightarrow> n)
            in if nd \<noteq> length (vector dataPoint) then Inl DimensionMismatch
               else if nd \<le> 1 then Inl DegenerateVector
               else Inr \<lparr>tData = tData st @ [dataPoint], numDim = Some nd\<rparr>)"

text \<open>\<open>parseTensors\<close>: \<open>None\<close> is the promise that stays pending with no error
  raised; \<open>Inl\<close> is the parse ended by the \<open>Error\<close> the callback throws.\<close>

definition parseTensors :: "'n js \<Rightarrow> string \<Rightarrow> string \<Rightarrow> (error + 'n DataPoint list) option" where
  "parseTensors J content valueDelim =
     map_option (map_sum id tData)
       (streamParse content (tensorLine J valueDelim) \<lparr>tData = [], numDim = None\<rparr>
          defaultChunkSize newline)"

subsection \<open>The parsing policy as the specification words it\<close>




section \<open>Metadata parsing and analysis\<close>

definition NUM_COLORS_COLOR_MAP :: nat where
  "NUM_COLORS_COLOR_MAP = 50"

text \<open>
  A count object of \<open>mapOfValues\<close> is made by \<open>new Object()\<close>: the model has its own
  keys with their counts, in the order the keys were added, and what it inherits from
  \<open>Object.prototype\<close>. The members of \<open>Object.prototype\<close> are functions held as
  writable data properties, except \<open>__proto__\<close>, which is an accessor.
\<close>

type_synonym countMap = "(string \<times> counter) list"

datatype inherited = NotInherited | InheritedData | InheritedAccessor

definition prototypeMethods :: "string list" where
  "prototypeMethods = [''constructor'', ''hasOwnProperty'', ''isPrototypeOf'', ''propertyIsEnumerable'',
     ''toLocaleString'', ''toString'', ''valueOf'', ''__defineGetter__'', ''__defineSetter__'',
     ''__lookupGetter__'', ''__lookupSetter__'']"

definition objectPrototype :: "string \<Rightarrow> inherited" where
  "objectPrototype k =
     (if k = ''__proto__'' then InheritedAccessor
      else if k \<in> set prototypeMethods then InheritedData
      else NotInherited)"

text \<open>\<open>c++\<close> on a count.\<close>

definition increment :: "counter \<Rightarrow> counter" where
  "increment c = (case c of Count n \<Rightarrow> Count (n + 1) | NaNCount \<Rightarrow> NaNCount)"

text \<open>
  \<open>if (value in map) { map[value]++; } else { map[value] = 1; }\<close>. The \<open>in\<close> test
  also holds of a key that is only inherited. Then \<open>map[value]++\<close> reads the inherited
  member, which converts to \<open>NaN\<close>, and assigns \<open>NaN\<close>: over an inherited data
  property the assignment makes an own property; the setter of \<open>__proto__\<close> ignores
  a number, and the object stays as it is.
\<close>

definition countValue :: "string \<Rightarrow> countMap \<Rightarrow> countMap" where
  "countValue k m =
     (if k \<in> fst ` set m then map (\<lambda>(k', c). if k' = k then (k', increment c) else (k', c)) m
      else case objectPrototype k of
             NotInherited \<Rightarrow> m @ [(k, Count 1)]
           | InheritedData \<Rightarrow> m @ [(k, NaNCount)]
           | InheritedAccessor \<Rightarrow> m)"

text \<open>
  \<open>Object.keys(map)\<close>: the own keys that are array indices (the canonical decimal
  string of a number below \<open>2^32 - 1\<close>) in ascending numeric order, then the other
  keys in the order they were added.
\<close>

definition decimalDigit :: "char \<Rightarrow> nat option" where
  "decimalDigit = map_of (zip ''0123456789'' [0, 1, 2, 3, 4, 5, 6, 7, 8, 9])"

fun decimalValue :: "nat \<Rightarrow> string \<Rightarrow> nat option" where
  "decimalValue acc [] = Some acc"
| "decimalValue acc (c # cs) =
     (case decimalDigit c of None \<Rightarrow> None | Some v \<Rightarrow> decimalValue (10 * acc + v) cs)"

definition arrayIndex :: "string \<Rightarrow> nat option" where
  "arrayIndex k =
     (case k of
        [] \<Rightarrow> None
      | c # cs \<Rightarrow>
          if c = CHR ''0'' \<and> cs \<noteq> [] then None
          else (case decimalValue 0 k of
                  None \<Rightarrow> None
                | Some i \<Rightarrow> if i < 2 ^ 32 - 1 then Some i else None))"

definition objectKeys :: "countMap \<Rightarrow> string list" where
  "objectKeys m =
     map snd (sort_key fst (List.map_filter (\<lambda>(k, c). map_option (\<lambda>i. (i, k)) (arrayIndex k)) m))
     @ filter (\<lambda>k. arrayIndex k = None) (map fst m)"

text \<open>\<open>map[label]\<close> for an own key.\<close>

definition countOf :: "countMap \<Rightarrow> string \<Rightarrow> counter" where
  "countOf m l = (case map_of m l of Some c \<Rightarrow> c | None \<Rightarrow> NaNCount)"

text \<open>A value as a property key, and as a number (\<open>null\<close> converts like the empty
  string, \<open>undefined\<close> like its name).\<close>

definition keyOf :: "'n js \<Rightarrow> 'n mval \<Rightarrow> string" where
  "keyOf J v = (case v of MStr s \<Rightarrow> s | MNum n \<Rightarrow> jsString J n | MNull \<Rightarrow> ''null'' | MUndefined \<Rightarrow> ''undefined'')"

definition numberOf :: "'n js \<Rightarrow> 'n mval \<Rightarrow> 'n" where
  "numberOf J v =
     (case v of MStr s \<Rightarrow> jsNumber J s | MNum n \<Rightarrow> n
      | MNull \<Rightarrow> jsNumber J [] | MUndefined \<Rightarrow> jsNumber J ''undefined'')"

text \<open>
  The body of the inner \<open>forEach\<close> of \<open>analyzeMetadata\<close> for a value that is not
  missing, on the column's statistics and count object:
  \<^verbatim>\<open>
  if (!stats.tooManyUniqueValues) {
      if (value in map) { map[value]++; } else { map[value] = 1; }
      if (Object.keys(map).length > NUM_COLORS_COLOR_MAP) { stats.tooManyUniqueValues = true; }
  }
  if (isNaN(value as any)) { stats.isNumeric = false; }
  else { metadata[name] = +value; stats.min = Math.min(stats.min, +value);
         stats.max = Math.max(stats.max, +value); }\<close>
\<close>

definition recordValue :: "'n js \<Rightarrow> 'n mval \<Rightarrow> 'n ColumnStats \<times> countMap \<Rightarrow> 'n ColumnStats \<times> countMap" where
  "recordValue J v sm =
     (let (stats, m) = sm;
          (stats1, m1) =
            (if \<not> tooManyUniqueValues stats
             then (let m' = countValue (keyOf J v) m
                   in (if length m' > NUM_COLORS_COLOR_MAP then stats\<lparr>tooManyUniqueValues := True\<rparr> else stats, m'))
             else (stats, m))
      in if jsIsNaN J (numberOf J v) then (stats1\<lparr>isNumeric := False\<rparr>, m1)
         else (stats1\<lparr>min_stat := jsMin J (min_stat stats1) (numberOf J v),
                      max_stat := jsMax J (max_stat stats1) (numberOf J v)\<rparr>, m1))"

text \<open>The value \<open>metadata[name]\<close> holds after the body: its number, when it has one.\<close>

definition storedValue :: "'n js \<Rightarrow> 'n mval \<Rightarrow> 'n mval" where
  "storedValue J v = (if jsIsNaN J (numberOf J v) then v else MNum (numberOf J v))"

text \<open>The inner \<open>forEach\<close> body for one column; \<open>value == null\<close> (a key that is
  absent, \<open>undefined\<close> or \<open>null\<close>) skips the column.\<close>

definition analyzeCell ::
  "'n js \<Rightarrow> 'n PointMetadata \<Rightarrow> 'n ColumnStats \<times> countMap \<Rightarrow> 'n PointMetadata \<times> ('n ColumnStats \<times> countMap)" where
  "analyzeCell J md sm =
     (case md (name (fst sm)) of
        None \<Rightarrow> (md, sm)
      | Some MUndefined \<Rightarrow> (md, sm)
      | Some MNull \<Rightarrow> (md, sm)
      | Some v \<Rightarrow> (md(name (fst sm) \<mapsto> storedValue J v), recordValue J v sm))"

text \<open>\<open>columnNames.forEach\<close> on one metadata object, over the columns' states in
  order, and \<open>pointsMetadata.forEach\<close> over the objects. The objects are taken to be
  distinct (each is changed by its own row only).\<close>

fun analyzeRow ::
  "'n js \<Rightarrow> 'n PointMetadata \<Rightarrow> ('n ColumnStats \<times> countMap) list
     \<Rightarrow> 'n PointMetadata \<times> ('n ColumnStats \<times> countMap) list" where
  "analyzeRow J md [] = (md, [])"
| "analyzeRow J md (sm # cols) =
     (let (md1, sm1) = analyzeCell J md sm;
          (md2, cols2) = analyzeRow J md1 cols
      in (md2, sm1 # cols2))"

fun analyzeRows ::
  "'n js \<Rightarrow> 'n PointMetadata list \<Rightarrow> ('n ColumnStats \<times> countMap) list
     \<Rightarrow> 'n PointMetadata list \<times> ('n ColumnStats \<times> countMap) list" where
  "analyzeRows J [] cols = ([], cols)"
| "analyzeRows J (md # mds) cols =
     (let (md1, cols1) = analyzeRow J md cols;
          (mds2, cols2) = analyzeRows J mds cols1
      in (md1 # mds2, cols2))"

definition initialStats :: "'n js \<Rightarrow> string \<Rightarrow> 'n ColumnStats" where
  "initialStats J nm = \<lparr>name = nm, isNumeric = True, tooManyUniqueValues = False,
     uniqueEntries = None, min_stat = POSITIVE_INFINITY J, max_stat = NEGATIVE_INFINITY J\<rparr>"

text \<open>\<open>stats.uniqueEntries = Object.keys(map).map(label => ({label, count: map[label]}))\<close>,
  for every column, marked or not.\<close>

definition withUniqueEntries :: "'n ColumnStats \<times> countMap \<Rightarrow> 'n ColumnStats" where
  "withUniqueEntries sm =
     (fst sm)\<lparr>uniqueEntries :=
        Some (map (\<lambda>l. \<lparr>label = l, count = countOf (snd sm) l\<rparr>) (objectKeys (snd sm)))\<rparr>"

text \<open>\<open>analyzeMetadata\<close>: the column statistics it returns, and the metadata objects as
  it leaves them.\<close>

definition analyzeMetadata ::
  "'n js \<Rightarrow> string list \<Rightarrow> 'n PointMetadata list \<Rightarrow> 'n ColumnStats list \<times> 'n PointMetadata list" where
  "analyzeMetadata J columnNames pointsMetadata =
     (let (mds, cols) = analyzeRows J pointsMetadata (map (\<lambda>nm. (initialStats J nm, [])) columnNames)
      in (map withUniqueEntries cols, mds))"

text \<open>What the line callback of \<open>parseMetadata\<close> closes over.\<close>

record 'n metadataState =
  pointsMetadata :: "'n PointMetadata list"
  hasHeader :: bool
  lineNumber :: nat
  columnNames :: "string list"

definition tab :: string where
  "tab = [CHR 0x09]"

text \<open>\<open>columnNames.forEach((name, colIndex) => { let value = rowValues[colIndex];
  value = (value === '' ? null : value); metadata[name] = value; })\<close> from column
  \<open>colIndex\<close> on.\<close>

fun fillRow :: "string list \<Rightarrow> nat \<Rightarrow> string list \<Rightarrow> 'n PointMetadata \<Rightarrow> 'n PointMetadata" where
  "fillRow rowValues colIndex [] md = md"
| "fillRow rowValues colIndex (nm # names) md =
     fillRow rowValues (Suc colIndex) names
       (md(nm \<mapsto> (if colIndex < length rowValues
                    then (if rowValues ! colIndex = [] then MNull else MStr (rowValues ! colIndex))
                    else MUndefined)))"

definition metadataLine :: "'n metadataState \<Rightarrow> string \<Rightarrow> error + 'n metadataState" where
  "metadataLine st line =
     (if length (jsTrim line) = 0 then Inr st
      else if lineNumber st = 0 \<and> CHR 0x09 \<in> set line
      then Inr (st\<lparr>hasHeader := True, columnNames := jsSplit line tab, lineNumber := Suc (lineNumber st)\<rparr>)
      else Inr (st\<lparr>hasHeader := (if lineNumber st = 0 then False else hasHeader st),
                   lineNumber := Suc (lineNumber st),
                   pointsMetadata := pointsMetadata st @ [fillRow (jsSplit line tab) 0 (columnNames st) Map.empty]\<rparr>))"

text \<open>The variables as \<open>parseMetadata\<close> declares them.\<close>

definition metadataStart :: "'n metadataState" where
  "metadataStart = \<lparr>pointsMetadata = [], hasHeader = False, lineNumber = 0, columnNames = [''label'']\<rparr>"

text \<open>\<open>parseMetadata\<close>: when the stream resolves, the promise resolves with the
  metadata objects, which \<open>analyzeMetadata\<close> has changed by then, and the statistics.\<close>

definition parseMetadata :: "'n js \<Rightarrow> string \<Rightarrow> (error + 'n SpriteAndMetadataInfo) option" where
  "parseMetadata J content =
     map_option
       (map_sum id
          (\<lambda>st. let (cs, mds) = analyzeMetadata J (columnNames st) (pointsMetadata st)
                in \<lparr>stats = Some cs, pointsInfo = Some mds\<rparr>))
       (streamParse content metadataLine metadataStart defaultChunkSize newline)"

section \<open>Subsets and sharing\<close>

text \<open>
  For \<open>getSubset\<close> the identity of the objects matters. The store holds the
  \<open>Float32Array\<close>s, the metadata objects and the projection caches; an address is a
  position in the store, and a new object is put at its end. A point holds the
  addresses of its three objects.
\<close>

record 'n store =
  vectorObjs :: "'n list list"
  metadataObjs :: "'n PointMetadata list"
  projectionObjs :: "(string \<Rightarrow> 'n option) list"

record pointRef =
  vectorAt :: nat
  metadataAt :: nat
  projectionsAt :: nat
  sequenceIndexOf :: "nat option"
  indexOf :: nat

text \<open>The point as a value, read through the store.\<close>

definition deref :: "'n store \<Rightarrow> pointRef \<Rightarrow> 'n DataPoint" where
  "deref h p = \<lparr>vector = vectorObjs h ! vectorAt p, metadata = metadataObjs h ! metadataAt p,
     sequenceIndex = sequenceIndexOf p, index = indexOf p,
     projections = projectionObjs h ! projectionsAt p\<rparr>"

definition allocated :: "'n store \<Rightarrow> pointRef \<Rightarrow> bool" where
  "allocated h p =
     (vectorAt p < length (vectorObjs h) \<and> metadataAt p < length (metadataObjs h)
      \<and> projectionsAt p < length (projectionObjs h))"

text \<open>
  \<open>pointsSubset.map((dp) => ({metadata: dp.metadata, index: dp.index,
  vector: dp.vector.slice(), projections: {}}))\<close>: \<open>slice\<close> makes a new array with the
  same numbers, \<open>{}\<close> a new empty cache, and \<open>dp.metadata\<close> is the object the
  original point holds. An entry \<open>undefined\<close> (\<open>None\<close>) makes \<open>dp.metadata\<close> throw.
\<close>

fun copyPoints :: "'n store \<Rightarrow> pointRef option list \<Rightarrow> error + ('n store \<times> pointRef list)" where
  "copyPoints h [] = Inr (h, [])"
| "copyPoints h (None # rest) = Inl TypeError"
| "copyPoints h (Some dp # rest) =
     (case copyPoints
             (h\<lparr>vectorObjs := vectorObjs h @ [vectorObjs h ! vectorAt dp],
                projectionObjs := projectionObjs h @ [Map.empty]\<rparr>) rest of
        Inl e \<Rightarrow> Inl e
      | Inr (h', ps) \<Rightarrow>
          Inr (h', \<lparr>vectorAt = length (vectorObjs h), metadataAt = metadataAt dp,
                     projectionsAt = length (projectionObjs h), sequenceIndexOf = None,
                     indexOf = indexOf dp\<rparr> # ps))"

text \<open>\<open>((subset != null) && (subset.length > 0)) ? subset.map((i) => this.points[i]) :
  this.points\<close>; an index with no point gives \<open>undefined\<close>.\<close>

definition pointsSubset :: "pointRef list \<Rightarrow> nat list option \<Rightarrow> pointRef option list" where
  "pointsSubset pts sel =
     (case sel of
        None \<Rightarrow> map Some pts
      | Some ixs \<Rightarrow>
          if length ixs > 0 then map (\<lambda>i. if i < length pts then Some (pts ! i) else None) ixs
          else map Some pts)"

text \<open>
  \<open>getSubset\<close> on a dataset with the points \<open>pts\<close>: the store after the call, the
  points of the new dataset, and the new dataset as the constructor leaves it, its
  points read through the store. \<open>None\<close> is the call that does not return.
\<close>

definition getSubset ::
  "'n js \<Rightarrow> (nat list \<Rightarrow> nat list) \<Rightarrow> 'n store \<Rightarrow> pointRef list \<Rightarrow> 'n SpriteAndMetadataInfo option
     \<Rightarrow> nat list option \<Rightarrow> (error + 'n store \<times> pointRef list \<times> ('n, 'e) DataSet) option" where
  "getSubset J shuffle h pts info sel =
     (case copyPoints h (pointsSubset pts sel) of
        Inl e \<Rightarrow> Some (Inl e)
      | Inr (h', ps) \<Rightarrow>
          (case newDataSet J shuffle (map (deref h') ps) info of
             None \<Rightarrow> None
           | Some (Inl e) \<Rightarrow> Some (Inl e)
           | Some (Inr d) \<Rightarrow> Some (Inr (h', ps, d))))"

section \<open>Nearest neighbours\<close>

text \<open>
  \<open>KMin\<close> (\<open>heap.ts\<close>) is not among the sources: the neighbour search uses it through
  the methods below, on a heap state of type \<open>'h\<close>. \<open>getLargestKey\<close> gives \<open>None\<close> for
  \<open>null\<close>.
\<close>

record ('n, 'h) KMin =
  newKMin :: "int \<Rightarrow> 'h"
  addK :: "'n \<Rightarrow> 'n NearestEntry \<Rightarrow> 'h \<Rightarrow> 'h"
  getSize :: "'h \<Rightarrow> nat"
  getLargestKey :: "'h \<Rightarrow> 'n option"
  getMinKItems :: "'h \<Rightarrow> 'n NearestEntry list"

text \<open>\<open>kMin.getSize() === k ? kMin.getLargestKey() || Number.MAX_VALUE : Number.MAX_VALUE\<close>\<close>

definition limitOf :: "'n js \<Rightarrow> ('n, 'h) KMin \<Rightarrow> int \<Rightarrow> 'h \<Rightarrow> 'n" where
  "limitOf J K k h =
     (if int (getSize K h) = k
      then (case getLargestKey K h of
              None \<Rightarrow> MAX_VALUE J
            | Some x \<Rightarrow> if jsTruthy J x then x else MAX_VALUE J)
      else MAX_VALUE J)"

text \<open>The body of the inner loop of \<open>findKNN\<close> for the pair \<open>i < j\<close>, on the array
  \<open>kMin\<close>.\<close>

definition knnPair ::
  "'n js \<Rightarrow> ('n, 'h) KMin \<Rightarrow> 'p list \<Rightarrow> int \<Rightarrow> ('p \<Rightarrow> 'n list) \<Rightarrow> ('n list \<Rightarrow> 'n list \<Rightarrow> 'n \<Rightarrow> 'n)
     \<Rightarrow> nat \<Rightarrow> nat \<Rightarrow> 'h list \<Rightarrow> 'h list" where
  "knnPair J K dataPoints k accessor distf i j kMin =
     (let limit = jsMax J (limitOf J K k (kMin ! i)) (limitOf J K k (kMin ! j));
          dist2ItoJ = distf (accessor (dataPoints ! i)) (accessor (dataPoints ! j)) limit
      in if jsNonNegative J dist2ItoJ
         then (kMin[i := addK K dist2ItoJ \<lparr>entryIndex = j, dist = dist2ItoJ\<rparr> (kMin ! i)])
                [j := addK K dist2ItoJ \<lparr>entryIndex = i, dist = dist2ItoJ\<rparr> (kMin ! j)]
         else kMin)"

text \<open>\<open>findKNN\<close>: the value its promise resolves with.\<close>

definition findKNN ::
  "'n js \<Rightarrow> ('n, 'h) KMin \<Rightarrow> 'p list \<Rightarrow> int \<Rightarrow> ('p \<Rightarrow> 'n list) \<Rightarrow> ('n list \<Rightarrow> 'n list \<Rightarrow> 'n \<Rightarrow> 'n)
     \<Rightarrow> 'n NearestTable" where
  "findKNN J K dataPoints k accessor distf =
     (let N = length dataPoints;
          kMin = fold (\<lambda>i. fold (knnPair J K dataPoints k accessor distf i) [Suc i ..< N])
                   [0 ..< N] (replicate N (newKMin K k))
      in map (\<lambda>h. Some (getMinKItems K h)) kMin)"

text \<open>
  The \<open>weblas\<close> library, on tensors of type \<open>'t\<close>. Each call may throw (\<open>None\<close>,
  \<open>False\<close>): \<open>new weblas.pipeline.Tensor(shape, data)\<close>; the product
  \<open>weblas.pipeline.sgemm(1, a, b, null, null)\<close> with \<open>transfer()\<close> of the result and
  the release of the block's two tensors; and \<open>delete()\<close> of the big matrix.
\<close>

record ('n, 't) weblas =
  wTensor :: "nat \<times> nat \<Rightarrow> 'n list \<Rightarrow> 't option"
  wSgemmTransfer :: "'t \<Rightarrow> 't \<Rightarrow> 'n list option"
  wDelete :: "'t \<Rightarrow> bool"

definition OPTIMAL_GPU_BLOCK_SIZE :: nat where
  "OPTIMAL_GPU_BLOCK_SIZE = 256"

text \<open>\<open>numPieces = Math.ceil(N / OPTIMAL_GPU_BLOCK_SIZE)\<close>, and
  \<open>B = piece < modulo ? M + 1 : M\<close> with \<open>M = Math.floor(N / numPieces)\<close> and
  \<open>modulo = N % numPieces\<close>, for \<open>N > 0\<close>.\<close>

definition numPieces :: "nat \<Rightarrow> nat" where
  "numPieces N = (N + (OPTIMAL_GPU_BLOCK_SIZE - 1)) div OPTIMAL_GPU_BLOCK_SIZE"

definition blockRows :: "nat \<Rightarrow> nat \<Rightarrow> nat" where
  "blockRows N piece = (if piece < N mod numPieces N then N div numPieces N + 1 else N div numPieces N)"

text \<open>\<open>typedB[i * dim + d] = vector[d]\<close> for the \<open>B\<close> points from \<open>offset\<close>: a vector
  shorter than \<open>dim\<close> gives \<open>undefined\<close>, stored as \<open>NaN\<close>.\<close>

definition typedBlock :: "'n js \<Rightarrow> 'p list \<Rightarrow> ('p \<Rightarrow> 'n list) \<Rightarrow> nat \<Rightarrow> nat \<Rightarrow> nat \<Rightarrow> 'n list" where
  "typedBlock J dataPoints accessor dm offset B =
     concat (map (\<lambda>i. map (\<lambda>d. if d < length (accessor (dataPoints ! (offset + i)))
                                then jsFloat32 J (accessor (dataPoints ! (offset + i)) ! d)
                                else jsNaN J) [0 ..< dm])
                [0 ..< B])"

text \<open>The GPU part of a block task: the block's tensor, the product, the transfer.\<close>

definition gpuPartial ::
  "'n js \<Rightarrow> ('n, 't) weblas \<Rightarrow> 't \<Rightarrow> 'p list \<Rightarrow> ('p \<Rightarrow> 'n list) \<Rightarrow> nat \<Rightarrow> nat \<Rightarrow> nat \<Rightarrow> 'n list option" where
  "gpuPartial J W bigMatrix dataPoints accessor dm offset B =
     (case wTensor W (B, dm) (typedBlock J dataPoints accessor dm offset B) of
        None \<Rightarrow> None
      | Some partialMatrix \<Rightarrow> wSgemmTransfer W bigMatrix partialMatrix)"

text \<open>The rest of the task, for row \<open>i\<close> of the block: a new \<open>KMin\<close> takes
  \<open>1 - partial[j * B + i]\<close> for every \<open>j\<close> but \<open>iReal\<close>.\<close>

definition rowNeighbours ::
  "'n js \<Rightarrow> ('n, 'h) KMin \<Rightarrow> int \<Rightarrow> nat \<Rightarrow> 'n list \<Rightarrow> nat \<Rightarrow> nat \<Rightarrow> nat \<Rightarrow> 'n NearestEntry list" where
  "rowNeighbours J K k N partial B offset i =
     getMinKItems K
       (fold (\<lambda>j h. if j = offset + i then h
                     else let cosDist = (if j * B + i < length partial
                                         then jsOneMinus J (partial ! (j * B + i)) else jsNaN J)
                          in addK K cosDist \<lparr>entryIndex = j, dist = cosDist\<rparr> h)
             [0 ..< N] (newKMin K k))"

definition blockNeighbours ::
  "'n js \<Rightarrow> ('n, 'h) KMin \<Rightarrow> int \<Rightarrow> nat \<Rightarrow> 'n list \<Rightarrow> nat \<Rightarrow> nat \<Rightarrow> 'n NearestTable \<Rightarrow> 'n NearestTable" where
  "blockNeighbours J K k N partial B offset nearest0 =
     fold (\<lambda>i tbl. tbl[offset + i := Some (rowNeighbours J K k N partial B offset i)]) [0 ..< B] nearest0"

text \<open>
  \<open>step\<close> of \<open>findKNNGPUCosine\<close>, with \<open>piece\<close>, \<open>offset\<close> and \<open>nearest\<close> as they
  stand: the block task, then the next \<open>step\<close> while \<open>piece < numPieces\<close>. \<open>None\<close>
  is the run in which a task is rejected; otherwise the array \<open>nearest\<close> after the last
  task.
\<close>

function gpuSteps ::
  "'n js \<Rightarrow> ('n, 'h) KMin \<Rightarrow> ('n, 't) weblas \<Rightarrow> 't \<Rightarrow> 'p list \<Rightarrow> int \<Rightarrow> ('p \<Rightarrow> 'n list) \<Rightarrow> nat
     \<Rightarrow> nat \<Rightarrow> nat \<Rightarrow> 'n NearestTable \<Rightarrow> 'n NearestTable option" where
  "gpuSteps J K W bigMatrix dataPoints k accessor dm piece offset nearest0 =
     (let N = length dataPoints; B = blockRows N piece in
      case gpuPartial J W bigMatrix dataPoints accessor dm offset B of
        None \<Rightarrow> None
      | Some partial \<Rightarrow>
          if piece + 1 < numPieces N
          then gpuSteps J K W bigMatrix dataPoints k accessor dm (piece + 1) (offset + B)
                 (blockNeighbours J K k N partial B offset nearest0)
          else Some (blockNeighbours J K k N partial B offset nearest0))"
  by pat_completeness auto
termination
  by (relation "measure (\<lambda>(J, K, W, bigMatrix, dataPoints, k, accessor, dm, piece, offset, nearest0).
        numPieces (length dataPoints) - piece)") auto

text \<open>
  \<open>findKNNGPUCosine\<close>. \<open>toTypedArray\<close> and \<open>cosDistNorm\<close> (\<open>vector.ts\<close>) are not
  among the sources and are parameters. \<open>Some (Inl e)\<close> is an exception out of the call
  itself, before there is a promise: \<open>accessor(dataPoints[0])\<close> on an empty array
  (the accessors of this program read \<open>.vector\<close>), or a throw from the construction of
  the big matrix. \<open>Some (Inr t)\<close> is the promise resolved with \<open>t\<close>; \<open>None\<close> is the
  promise that is never resolved (the final \<open>bigMatrix.delete()\<close> throws in its
  handler). A rejected task resolves the promise with what \<open>findKNN\<close> gives.
\<close>

definition findKNNGPUCosine ::
  "'n js \<Rightarrow> ('n, 'h) KMin \<Rightarrow> ('n, 't) weblas \<Rightarrow> ('p list \<Rightarrow> ('p \<Rightarrow> 'n list) \<Rightarrow> 'n list)
     \<Rightarrow> ('n list \<Rightarrow> 'n list \<Rightarrow> 'n) \<Rightarrow> 'p list \<Rightarrow> int \<Rightarrow> ('p \<Rightarrow> 'n list)
     \<Rightarrow> (error + 'n NearestTable) option" where
  "findKNNGPUCosine J K W toTypedArray cosDistNorm dataPoints k accessor =
     (case dataPoints of
        [] \<Rightarrow> Some (Inl TypeError)
      | p0 # _ \<Rightarrow>
          let N = length dataPoints; dm = length (accessor p0) in
          case wTensor W (N, dm) (toTypedArray dataPoints accessor) of
            None \<Rightarrow> Some (Inl GpuFailure)
          | Some bigMatrix \<Rightarrow>
              (case gpuSteps J K W bigMatrix dataPoints k accessor dm 0 0 (replicate N None) of
                 None \<Rightarrow> Some (Inr (findKNN J K dataPoints k accessor (\<lambda>a b limit. cosDistNorm a b)))
               | Some tbl \<Rightarrow> if wDelete W bigMatrix then Some (Inr tbl) else None))"

section \<open>Notions used in the properties\<close>

subsection \<open>The states of a run\<close>

text \<open>
  A run is running or paused while a call of \<open>step\<close> is scheduled and the stop flag is
  down. It is stopped when nothing is scheduled, the flag is up, the engine handle is
  gone and \<open>hasTSNERun\<close> is false. \<open>stop\<close> is \<open>stopTSNE\<close> on the dataset of the run.
\<close>

definition Running :: "('n, 'e) run \<Rightarrow> bool" where
  "Running r = (scheduled r \<and> \<not> tSNEShouldStop (ds r) \<and> \<not> tSNEShouldPause (ds r))"

definition Paused :: "('n, 'e) run \<Rightarrow> bool" where
  "Paused r = (scheduled r \<and> \<not> tSNEShouldStop (ds r) \<and> tSNEShouldPause (ds r))"

definition Stopped :: "('n, 'e) run \<Rightarrow> bool" where
  "Stopped r = (\<not> scheduled r \<and> tSNEShouldStop (ds r) \<and> tsne (ds r) = None \<and> \<not> hasTSNERun (ds r))"

definition stop :: "('n, 'e) run \<Rightarrow> ('n, 'e) run" where
  "stop r = r\<lparr>ds := stopTSNE (ds r)\<rparr>"


subsection \<open>Link cycles\<close>

text \<open>A set of positions that the links never leave: the loop started inside never ends.\<close>

definition linkClosed :: "'n js \<Rightarrow> 'n DataPoint list \<Rightarrow> nat set \<Rightarrow> bool" where
  "linkClosed J pts S =
     (\<forall>i \<in> S. \<exists>n j. getSequenceNextPointIndex J (metadata (pts ! i)) = Some n
        \<and> jsIndex J n = Some j \<and> j < length pts \<and> j \<in> S)"


subsection \<open>Chunks without a delimiter\<close>

text \<open>No chunk from \<open>offset\<close> on holds the delimiter: each is split into one part.\<close>

definition noDelimiterFrom :: "string \<Rightarrow> nat \<Rightarrow> string \<Rightarrow> nat \<Rightarrow> bool" where
  "noDelimiterFrom content chunkSize delim offset =
     (\<forall>k. length (jsSplit (take chunkSize (drop (offset + k * chunkSize) content)) delim) = 1)"


subsection \<open>Metadata with numbers in place\<close>

text \<open>A metadata value with its number in place of a numeric string.\<close>

definition numericValue :: "'n js \<Rightarrow> 'n mval \<Rightarrow> 'n mval" where
  "numericValue J v =
     (case v of
        MStr s \<Rightarrow> if jsIsNaN J (jsNumber J s) then MStr s else MNum (jsNumber J s)
      | _ \<Rightarrow> v)"

text \<open>A metadata object with every value under one of the column names made numeric
  where it parses as a number.\<close>

definition numericCopy :: "'n js \<Rightarrow> string list \<Rightarrow> 'n PointMetadata \<Rightarrow> 'n PointMetadata" where
  "numericCopy J names md = (\<lambda>k. if k \<in> set names then map_option (numericValue J) (md k) else md k)"


subsection \<open>The values of a column\<close>

text \<open>The values of a column that are not missing, in the order of the rows.\<close>

definition presentValue :: "'n mval option \<Rightarrow> 'n mval option" where
  "presentValue vo = (case vo of None \<Rightarrow> None | Some MUndefined \<Rightarrow> None | Some MNull \<Rightarrow> None | Some v \<Rightarrow> Some v)"




text \<open>The count object after counting a list of keys, and the numbers of the values
  that have one.\<close>

definition tally :: "string list \<Rightarrow> countMap" where
  "tally ks = foldl (\<lambda>m k. countValue k m) [] ks"


text \<open>The effect of one cell on the state of its column, and the invariant that ties
  the count object and the mark to the keys seen so far.\<close>

definition cellState :: "'n js \<Rightarrow> 'n mval option \<Rightarrow> 'n ColumnStats \<times> countMap \<Rightarrow> 'n ColumnStats \<times> countMap" where
  "cellState J vo sm = (case presentValue vo of None \<Rightarrow> sm | Some v \<Rightarrow> recordValue J v sm)"



subsection \<open>Writes to the store\<close>

text \<open>A change of one object of the store in place.\<close>

definition writeVector :: "'n store \<Rightarrow> nat \<Rightarrow> 'n list \<Rightarrow> 'n store" where
  "writeVector h a v = h\<lparr>vectorObjs := (vectorObjs h)[a := v]\<rparr>"

definition writeProjection :: "'n store \<Rightarrow> nat \<Rightarrow> (string \<Rightarrow> 'n option) \<Rightarrow> 'n store" where
  "writeProjection h a pm = h\<lparr>projectionObjs := (projectionObjs h)[a := pm]\<rparr>"

definition writeMetadata :: "'n store \<Rightarrow> nat \<Rightarrow> 'n PointMetadata \<Rightarrow> 'n store" where
  "writeMetadata h a md = h\<lparr>metadataObjs := (metadataObjs h)[a := md]\<rparr>"


subsection \<open>Blocks of the GPU computation\<close>

text \<open>The offset at which a block starts: the rows of the blocks before it.\<close>

primrec blockOffset :: "nat \<Rightarrow> nat \<Rightarrow> nat" where
  "blockOffset N 0 = 0"
| "blockOffset N (Suc piece) = blockOffset N piece + blockRows N piece"


section \<open>A reference instance of the built-ins\<close>

text \<open>
  For running the definitions on concrete inputs: the integers with NaN and the two
  infinities. \<open>refNumber\<close> agrees with JavaScript's \<open>Number\<close> on the empty string, on
  decimal digit strings with an optional minus sign, and on strings that hold a letter
  other than in a numeric literal; the inputs below are of these forms. On integers
  that doubles hold exactly the product is exact and \<open>Math.floor\<close> changes nothing.
\<close>

datatype refnum = NaN | NegInf | Fin int | PosInf

definition refNumber :: "string \<Rightarrow> refnum" where
  "refNumber s =
     (case s of
        [] \<Rightarrow> Fin 0
      | c # cs \<Rightarrow>
          if c = CHR ''-'' then
            (if cs = [] then NaN
             else case decimalValue 0 cs of None \<Rightarrow> NaN | Some v \<Rightarrow> Fin (- int v))
          else (case decimalValue 0 s of None \<Rightarrow> NaN | Some v \<Rightarrow> Fin (int v)))"

definition digitChar :: "nat \<Rightarrow> char" where
  "digitChar v = ''0123456789'' ! v"

function showNat :: "nat \<Rightarrow> string" where
  "showNat v = (if v < 10 then [digitChar v] else showNat (v div 10) @ [digitChar (v mod 10)])"
  by pat_completeness auto
termination
  by (relation "measure id") auto

definition refString :: "refnum \<Rightarrow> string" where
  "refString x =
     (case x of
        NaN \<Rightarrow> ''NaN'' | NegInf \<Rightarrow> ''-Infinity'' | PosInf \<Rightarrow> ''Infinity''
      | Fin i \<Rightarrow> if i < 0 then CHR ''-'' # showNat (nat (- i)) else showNat (nat i))"

definition refIndex :: "refnum \<Rightarrow> nat option" where
  "refIndex x = (case x of Fin i \<Rightarrow> if 0 \<le> i then Some (nat i) else None | _ \<Rightarrow> None)"

fun refMin :: "refnum \<Rightarrow> refnum \<Rightarrow> refnum" where
  "refMin NaN y = NaN"
| "refMin x NaN = NaN"
| "refMin NegInf y = NegInf"
| "refMin x NegInf = NegInf"
| "refMin PosInf y = y"
| "refMin x PosInf = x"
| "refMin (Fin a) (Fin b) = Fin (min a b)"

fun refMax :: "refnum \<Rightarrow> refnum \<Rightarrow> refnum" where
  "refMax NaN y = NaN"
| "refMax x NaN = NaN"
| "refMax PosInf y = PosInf"
| "refMax x PosInf = PosInf"
| "refMax NegInf y = y"
| "refMax x NegInf = x"
| "refMax (Fin a) (Fin b) = Fin (max a b)"

definition refNonNegative :: "refnum \<Rightarrow> bool" where
  "refNonNegative x = (case x of Fin i \<Rightarrow> 0 \<le> i | PosInf \<Rightarrow> True | _ \<Rightarrow> False)"

definition refOneMinus :: "refnum \<Rightarrow> refnum" where
  "refOneMinus x = (case x of Fin i \<Rightarrow> Fin (1 - i) | PosInf \<Rightarrow> NegInf | NegInf \<Rightarrow> PosInf | NaN \<Rightarrow> NaN)"

text \<open>The sign of a number (\<open>None\<close> for \<open>NaN\<close>) and the product.\<close>

definition refSign :: "refnum \<Rightarrow> int option" where
  "refSign x = (case x of NaN \<Rightarrow> None | NegInf \<Rightarrow> Some (- 1) | PosInf \<Rightarrow> Some 1 | Fin i \<Rightarrow> Some (sgn i))"

definition refTimes :: "refnum \<Rightarrow> refnum \<Rightarrow> refnum" where
  "refTimes x y =
     (case (x, y) of
        (Fin a, Fin b) \<Rightarrow> Fin (a * b)
      | _ \<Rightarrow> (case (refSign x, refSign y) of
                (Some s, Some t) \<Rightarrow> if s * t = 0 then NaN else if 0 < s * t then PosInf else NegInf
              | _ \<Rightarrow> NaN))"

definition refJS :: "refnum js" where
  "refJS = \<lparr>jsNumber = refNumber, jsIsNaN = (\<lambda>x. x = NaN), jsString = refString,
            jsIndex = refIndex, jsFloat32 = (\<lambda>x. x), jsMin = refMin, jsMax = refMax,
            POSITIVE_INFINITY = PosInf, NEGATIVE_INFINITY = NegInf,
            MAX_VALUE = Fin (2 ^ 1024 - 2 ^ 971), jsNaN = NaN,
            jsTruthy = (\<lambda>x. x \<noteq> NaN \<and> x \<noteq> Fin 0), jsNonNegative = refNonNegative,
            jsOneMinus = refOneMinus, jsOfInt = Fin, jsTimes = refTimes, jsFloor = (\<lambda>x. x),
            jsStrictEq = (\<lambda>x y. x \<noteq> NaN \<and> x = y)\<rparr>"

subsection \<open>Stand-ins for the missing modules\<close>

text \<open>
  Modelled from the spec: \<open>KMin\<close> of \<open>heap.ts\<close>, which is not among the sources, as
  the specification describes \<open>BoundedTopK\<close>: the retained items in ascending order of
  key; at capacity a key not smaller than the largest retained key is rejected, a
  smaller one evicts the largest.
\<close>

fun refLess :: "refnum \<Rightarrow> refnum \<Rightarrow> bool" where
  "refLess NaN y = False"
| "refLess x NaN = False"
| "refLess x NegInf = False"
| "refLess NegInf y = True"
| "refLess PosInf y = False"
| "refLess x PosInf = True"
| "refLess (Fin a) (Fin b) = (a < b)"

fun insertByKey :: "refnum \<Rightarrow> 'v \<Rightarrow> (refnum \<times> 'v) list \<Rightarrow> (refnum \<times> 'v) list" where
  "insertByKey key v [] = [(key, v)]"
| "insertByKey key v ((key', v') # items) =
     (if refLess key key' then (key, v) # (key', v') # items
      else (key', v') # insertByKey key v items)"

definition refKMin :: "(refnum, int \<times> (refnum \<times> refnum NearestEntry) list) KMin" where
  "refKMin = \<lparr>newKMin = (\<lambda>k. (k, [])),
     addK = (\<lambda>key v (k, items). (k, take (nat k) (insertByKey key v items))),
     getSize = (\<lambda>(k, items). length items),
     getLargestKey = (\<lambda>(k, items). if items = [] then None else Some (fst (last items))),
     getMinKItems = (\<lambda>(k, items). map snd items)\<rparr>"

text \<open>Stand-ins for \<open>toTypedArray\<close> and \<open>cosDistNorm\<close> on integer vectors: the rows
  one after the other, and one minus the dot product.\<close>

definition flatten :: "'p list \<Rightarrow> ('p \<Rightarrow> 'n list) \<Rightarrow> 'n list" where
  "flatten dataPoints accessor = concat (map accessor dataPoints)"

fun refDot :: "refnum list \<Rightarrow> refnum list \<Rightarrow> int option" where
  "refDot (Fin a # as) (Fin b # bs) = map_option (\<lambda>r. a * b + r) (refDot as bs)"
| "refDot [] [] = Some 0"
| "refDot as bs = None"

definition refCosDist :: "refnum list \<Rightarrow> refnum list \<Rightarrow> refnum" where
  "refCosDist a b = (case refDot a b of None \<Rightarrow> NaN | Some r \<Rightarrow> Fin (1 - r))"


text \<open>An optimizer whose state counts its steps, a neighbour engine that finds no
  neighbours, one whose table shows the \<open>K\<close> it was computed for, and one that
  throws.\<close>

definition unitTSNE :: "(refnum, nat) TSNE" where
  "unitTSNE = \<lparr>newTSNE = (\<lambda>_. 0), setSupervisionE = (\<lambda>_ _ e. e), setSuperviseFactorE = (\<lambda>_ e. e),
     initDataDist = (\<lambda>_ e. e), stepE = Suc, getSolution = (\<lambda>e j. Fin (int (e + j))),
     perturbE = (\<lambda>e. e + 100), getDim = (\<lambda>_. 2)\<rparr>"

definition noNeighbours :: "refnum DataPoint option list \<Rightarrow> refnum \<Rightarrow> (error + refnum NearestTable) option" where
  "noNeighbours sample k = Some (Inr (map (\<lambda>_. Some []) sample))"

definition tableFor :: "refnum DataPoint option list \<Rightarrow> refnum \<Rightarrow> (error + refnum NearestTable) option" where
  "tableFor sample k = Some (Inr (map (\<lambda>_. Some [\<lparr>entryIndex = 0, dist = k\<rparr>]) sample))"

definition engineThrows :: "refnum DataPoint option list \<Rightarrow> refnum \<Rightarrow> (error + refnum NearestTable) option" where
  "engineThrows sample k = Some (Inl GpuFailure)"


text \<open>Two libraries that fail: one whose matrix product throws, one that cannot even
  make a tensor.\<close>

definition productFails :: "(refnum, refnum list) weblas" where
  "productFails = \<lparr>wTensor = (\<lambda>shape data. Some data), wSgemmTransfer = (\<lambda>a b. None),
     wDelete = (\<lambda>t. True)\<rparr>"

definition tensorFails :: "(refnum, refnum list) weblas" where
  "tensorFails = \<lparr>wTensor = (\<lambda>shape data. None), wSgemmTransfer = (\<lambda>a b. None),
     wDelete = (\<lambda>t. True)\<rparr>"


section \<open>Example data\<close>

definition plainPoint :: "nat \<Rightarrow> refnum PointMetadata \<Rightarrow> refnum DataPoint" where
  "plainPoint i md = \<lparr>vector = [Fin 1, Fin 2], metadata = md, sequenceIndex = None, index = i,
     projections = Map.empty\<rparr>"

definition plainDataSet :: "refnum DataPoint list \<Rightarrow> (refnum, nat) DataSet" where
  "plainDataSet pts = \<lparr>points = pts, sequences = [],
                  shuffledDataIndices = [0 ..< length pts],
                  dsProjections = Map.empty, nearest = Some [], nearestK = Fin 0,
                  tSNEIteration = 0, tSNEShouldPause = False, tSNEShouldStop = True,
                  superviseFactor = 0, superviseLabels = [], superviseInput = [],
                  dim = (length pts, 2), hasTSNERun = False,
                  spriteAndMetadataInfo = None, tsne = None\<rparr>"

definition labelColumn :: "refnum ColumnStats" where
  "labelColumn = \<lparr>name = ''label'', isNumeric = False, tooManyUniqueValues = False,
      uniqueEntries = None, min_stat = PosInf, max_stat = NegInf\<rparr>"

definition labelled :: "string \<Rightarrow> refnum PointMetadata" where
  "labelled s = [''label'' \<mapsto> MStr s]"

definition threeLabels :: "refnum SpriteAndMetadataInfo" where
  "threeLabels = \<lparr>stats = Some [labelColumn],
      pointsInfo = Some [labelled ''a'', labelled ''b'', labelled ''c'']\<rparr>"

definition twoLabels :: "refnum SpriteAndMetadataInfo" where
  "twoLabels = \<lparr>stats = Some [labelColumn],
      pointsInfo = Some [labelled ''a'', labelled ''b'']\<rparr>"

definition selfLinked :: "refnum DataPoint" where
  "selfLinked = plainPoint 0 [''__next__'' \<mapsto> MStr ''0'']"

definition freshRun :: "(refnum, nat) run" where
  "freshRun = \<lparr>ds = plainDataSet [plainPoint 0 Map.empty], stepCalls = [], scheduled = False\<rparr>"

text \<open>A run with perplexity 2, stopped after one frame; then a run with perplexity 5
  whose engine throws.\<close>

definition firstRun :: "(refnum, nat) run" where
  "firstRun = projectTSNE refJS unitTSNE tableFor (Fin 2) (Fin 10) 2 freshRun"

definition stoppedRun :: "(refnum, nat) run" where
  "stoppedRun = step unitTSNE 2 [0] (stop firstRun)"

definition failedRun :: "(refnum, nat) run" where
  "failedRun = projectTSNE refJS unitTSNE engineThrows (Fin 5) (Fin 10) 2 stoppedRun"

definition startedRun :: "(refnum, nat) run" where
  "startedRun = projectTSNE refJS unitTSNE noNeighbours (Fin 2) (Fin 10) 2
      \<lparr>ds = plainDataSet [plainPoint 0 Map.empty], stepCalls = [], scheduled = False\<rparr>"

definition catDog :: string where
  "catDog = ''cat'' @ tab @ ''1'' @ tab @ ''2'' @ newline @ ''dog'' @ tab @ ''3'' @ tab @ ''4'' @ newline"

definition sevenAndX :: string where
  "sevenAndX = ''7'' @ newline @ ''x'' @ newline"



definition oneStore :: "refnum store" where
  "oneStore = \<lparr>vectorObjs = [[Fin 1, Fin 2]], metadataObjs = [[''label'' \<mapsto> MStr ''a'']],
     projectionObjs = [Map.empty]\<rparr>"

definition firstPoint :: pointRef where
  "firstPoint = \<lparr>vectorAt = 0, metadataAt = 0, projectionsAt = 0, sequenceIndexOf = None, indexOf = 0\<rparr>"

definition copyStore :: "refnum store" where
  "copyStore = \<lparr>vectorObjs = [[Fin 1, Fin 2], [Fin 1, Fin 2]], metadataObjs = [[''label'' \<mapsto> MStr ''a'']],
     projectionObjs = [Map.empty, Map.empty]\<rparr>"

definition copyPoint :: pointRef where
  "copyPoint = \<lparr>vectorAt = 1, metadataAt = 0, projectionsAt = 1, sequenceIndexOf = None, indexOf = 0\<rparr>"

definition subsetOfOne :: "(error + refnum store \<times> pointRef list \<times> (refnum, nat) DataSet) option" where
  "subsetOfOne = getSubset refJS (\<lambda>ixs. ixs) oneStore [firstPoint] None None"

definition twoPoints :: "refnum DataPoint list" where
  "twoPoints = [(plainPoint 0 Map.empty)\<lparr>vector := [Fin 1, Fin 0]\<rparr>,
                (plainPoint 1 Map.empty)\<lparr>vector := [Fin 0, Fin 1]\<rparr>]"


section \<open>Metadata merge\<close>

lemma metadata_rewrite_same:
  "map (\<lambda>(p, m). p\<lparr>metadata := m\<rparr>) (zip ps (map metadata ps)) = ps"
  by (induction ps) auto

lemma assignMetadata_zip:
  "length ms \<le> length ps \<Longrightarrow>
   assignMetadata ms ps = map (\<lambda>(p, m). p\<lparr>metadata := m\<rparr>) (zip ps (ms @ drop (length ms) (map metadata ps)))"
  by (induction ms ps rule: assignMetadata.induct) (simp_all add: metadata_rewrite_same)


text \<open>
  C2, as the code has it. A payload with point records is rejected, with the dataset
  left as it was, exactly when its record count differs from the point count in one of
  the two header shapes: one column and one record more than points, or several columns
  and one record fewer. Every other payload with point records is merged and the call
  returns success, whatever its record count: the first records are written onto the
  points by position, surplus records are dropped, and points beyond the last record
  keep their metadata.
\<close>

theorem mergeMetadata_policy:
  "pointsInfo md = Some pinfo \<Longrightarrow>
   (if length pinfo \<noteq> length (points d) \<and> (singleColumnHeader d md pinfo \<or> missingHeader d md pinfo)
    then mergeMetadata d md = (False, d)
    else fst (mergeMetadata d md)
       \<and> spriteAndMetadataInfo (snd (mergeMetadata d md)) = Some md
       \<and> points (snd (mergeMetadata d md)) =
           map (\<lambda>(p, m). p\<lparr>metadata := m\<rparr>)
             (zip (points d) (take (length (points d)) pinfo @ drop (length pinfo) (map metadata (points d)))))"
  by (auto simp: mergeMetadata_def assignMetadata_zip min_def)


theorem mergeMetadata_policy_witness:
  "pointsInfo twoLabels = Some [labelled ''a'', labelled ''b'']
   \<and> mergeMetadata (plainDataSet [plainPoint 0 Map.empty]) twoLabels = (False, plainDataSet [plainPoint 0 Map.empty])"
  using mergeMetadata_policy [of twoLabels "[labelled ''a'', labelled ''b'']" "plainDataSet [plainPoint 0 Map.empty]"]
  by (simp add: twoLabels_def plainDataSet_def singleColumnHeader_def)


text \<open>
  C2 as stated fails: three records for one point, in a single column, is a record-count
  mismatch in neither header shape; the call returns success and the point's metadata is
  replaced.
\<close>

theorem mergeMetadata_mismatch_merged:
  "length (the (pointsInfo threeLabels)) \<noteq> length (points (plainDataSet [plainPoint 0 Map.empty]))
   \<and> fst (mergeMetadata (plainDataSet [plainPoint 0 Map.empty]) threeLabels) = True
   \<and> metadata (hd (points (snd (mergeMetadata (plainDataSet [plainPoint 0 Map.empty]) threeLabels)))) ''label'' = Some (MStr ''a'')
   \<and> metadata (hd (points (plainDataSet [plainPoint 0 Map.empty]))) ''label'' = None"
  by (simp add: mergeMetadata_def threeLabels_def plainDataSet_def plainPoint_def
        singleColumnHeader_def missingHeader_def labelled_def)

section \<open>Sequence derivation\<close>

lemma selfLinked_next: "getSequenceNextPointIndex refJS (metadata selfLinked) = Some (Fin 0)"
  by (simp add: getSequenceNextPointIndex_def SEQUENCE_METADATA_ATTRS_def selfLinked_def plainPoint_def
      refJS_def refNumber_def decimalDigit_def)

lemma followSequence_Some_outside:
  assumes ret: "followSequence J pts cur pis seen = Some y"
  shows "\<not> (\<exists>S. linkClosed J pts S \<and> cur \<in> S)"
proof (rule followSequence.raw_induct
    [where P = "\<lambda>J pts cur pis seen y. \<not> (\<exists>S. linkClosed J pts S \<and> cur \<in> S)", OF _ ret])
  fix follow :: "'a js \<Rightarrow> 'a DataPoint list \<Rightarrow> nat \<Rightarrow> nat list \<Rightarrow> bool list \<Rightarrow> (nat list \<times> bool list) option"
  fix J pts cur pis seen y
  assume IH: "\<And>J pts cur pis seen y. follow J pts cur pis seen = Some y
                \<Longrightarrow> \<not> (\<exists>S. linkClosed J pts S \<and> cur \<in> S)"
    and body: "(case getSequenceNextPointIndex J (metadata (pts ! cur)) of
        None \<Rightarrow> Some (pis @ [cur], seen)
      | Some nxt \<Rightarrow>
          (case jsIndex J nxt of
             None \<Rightarrow> Some (pis @ [cur], seen)
           | Some j \<Rightarrow>
               if j < length pts
               then follow J pts j (pis @ [cur]) (seen[j := True])
               else Some (pis @ [cur], seen))) = Some y"
  show "\<not> (\<exists>S. linkClosed J pts S \<and> cur \<in> S)"
  proof
    assume "\<exists>S. linkClosed J pts S \<and> cur \<in> S"
    then obtain S where S: "linkClosed J pts S" "cur \<in> S" by blast
    then obtain n j where nj: "getSequenceNextPointIndex J (metadata (pts ! cur)) = Some n"
      "jsIndex J n = Some j" "j < length pts" "j \<in> S"
      unfolding linkClosed_def by blast
    with body have "follow J pts j (pis @ [cur]) (seen[j := True]) = Some y" by simp
    from IH[OF this] S(1) nj(4) show False by blast
  qed
qed

lemma followSequence_cycle:
  "linkClosed J pts S \<Longrightarrow> cur \<in> S \<Longrightarrow> followSequence J pts cur pis seen = None"
  using followSequence_Some_outside[of J pts cur pis seen] by (cases "followSequence J pts cur pis seen") auto

text \<open>
  C3 fails on the code. The visited array guards the outer \<open>for\<close> loop only; the inner
  \<open>while\<close> loop follows the links without looking at it. A single point whose
  \<open>__next__\<close> is its own index has \<open>computeSequences\<close> push that index for ever: the
  call does not return.
\<close>

theorem computeSequences_self_link_diverges:
  "computeSequences refJS [selfLinked] = None"
proof -
  have c: "linkClosed refJS [selfLinked] {0}"
    unfolding linkClosed_def using selfLinked_next by (simp add: refJS_def refIndex_def)
  have "followSequence refJS [selfLinked] 0 [] [True] = None"
    by (rule followSequence_cycle[OF c]) simp
  then show ?thesis
    using selfLinked_next
    by (simp add: computeSequences_def sequenceRound_def refJS_def refIndex_def)
qed


section \<open>The optimization lifecycle\<close>

lemma step_after_stop:
  "step E tsneDim ixs (stop r) =
     r\<lparr>ds := (ds r)\<lparr>tSNEShouldStop := True, dsProjections := (dsProjections (ds r))(''tsne'' \<mapsto> False),
                     tsne := None, hasTSNERun := False\<rparr>,
       stepCalls := stepCalls r @ [None], scheduled := False\<rparr>"
  by (simp add: step_def stop_def stopTSNE_def Let_def)

lemma frames_unscheduled: "\<not> scheduled r \<Longrightarrow> frames E tsneDim ixs n r = r"
  by (cases n) simp_all

text \<open>
  C5. With \<open>stopTSNE\<close> called on a run that is running or paused, after any number of
  frames (at least one) the run is stopped: no call is scheduled, the engine handle is
  gone and \<open>hasTSNERun\<close> is false; the step callback has been called once more, with
  \<open>null\<close>; the points, and with them the projections written before, are as they
  were; and \<open>perturbTsne\<close> changes nothing.
\<close>

theorem stop_is_terminal:
  assumes "Running r \<or> Paused r"
  shows "let r' = frames E tsneDim ixs (Suc n) (stop r) in
           Stopped r'
         \<and> stepCalls r' = stepCalls r @ [None]
         \<and> points (ds r') = points (ds r)
         \<and> perturbTsne E (ds r') = ds r'"
proof -
  from assms have s: "scheduled (stop r)" by (auto simp: Running_def Paused_def stop_def)
  have "frames E tsneDim ixs (Suc n) (stop r) = step E tsneDim ixs (stop r)"
    using s by (simp add: frames_unscheduled step_after_stop)
  then show ?thesis
    by (simp add: step_after_stop Stopped_def perturbTsne_def Let_def)
qed

lemma startedRun_Running: "Running startedRun"
  by (simp add: startedRun_def projectTSNE_def knnResolved_def Running_def Let_def plainDataSet_def
      reusesNearest_def neighbourCount_def refJS_def refTimes_def noNeighbours_def)

theorem stop_is_terminal_witness:
  "Running startedRun
   \<and> Stopped (frames unitTSNE 2 [0] 3 (stop startedRun))
   \<and> stepCalls (frames unitTSNE 2 [0] 3 (stop startedRun)) = [None]"
proof -
  have c: "stepCalls startedRun = []"
    by (simp add: startedRun_def projectTSNE_def knnResolved_def Let_def plainDataSet_def
        reusesNearest_def neighbourCount_def refJS_def refTimes_def noNeighbours_def)
  show ?thesis
    using stop_is_terminal [of startedRun unitTSNE 2 "[0]" 2] startedRun_Running c
    by (simp add: Let_def numeral_3_eq_3)
qed

subsection \<open>The neighbour cache\<close>

text \<open>
  What a run start does to the cache when the engine resolves: it keeps the table and
  the recorded \<open>K\<close> when the test \<open>k === this.nearestK\<close> holds, and otherwise stores
  the engine's table and the new \<open>K\<close>. When the engine throws or never resolves, it
  stores the new \<open>K\<close> and keeps the old table.
\<close>

lemma projectTSNE_engine_resolves:
  assumes "knn (sampledData (points (ds r)) (take TSNE_SAMPLE_SIZE (shuffledDataIndices (ds r))))
             (neighbourCount J perplexity) = Some (Inr tbl)"
    and "nearest (ds r) = Some old"
  shows "nearest (ds (projectTSNE J E knn perplexity learningRate tsneDim r))
           = Some (if jsStrictEq J (neighbourCount J perplexity) (nearestK (ds r)) then old else tbl)"
    and "nearestK (ds (projectTSNE J E knn perplexity learningRate tsneDim r))
           = (if jsStrictEq J (neighbourCount J perplexity) (nearestK (ds r)) then nearestK (ds r)
              else neighbourCount J perplexity)"
    and "scheduled (projectTSNE J E knn perplexity learningRate tsneDim r)"
  using assms by (simp_all add: projectTSNE_def knnResolved_def reusesNearest_def Let_def)

lemma projectTSNE_engine_fails:
  assumes "knn (sampledData (points (ds r)) (take TSNE_SAMPLE_SIZE (shuffledDataIndices (ds r))))
             (neighbourCount J perplexity) \<in> {None, Some (Inl err)}"
    and "\<not> jsStrictEq J (neighbourCount J perplexity) (nearestK (ds r))"
  shows "nearest (ds (projectTSNE J E knn perplexity learningRate tsneDim r)) = nearest (ds r)"
    and "nearestK (ds (projectTSNE J E knn perplexity learningRate tsneDim r)) = neighbourCount J perplexity"
    and "scheduled (projectTSNE J E knn perplexity learningRate tsneDim r) = scheduled r"
  using assms by (auto simp: projectTSNE_def reusesNearest_def Let_def)

lemma firstRun_cache:
  "nearestK (ds firstRun) = Fin 6 \<and> nearest (ds firstRun) = Some [Some [\<lparr>entryIndex = 0, dist = Fin 6\<rparr>]]
   \<and> points (ds firstRun) = [plainPoint 0 Map.empty] \<and> shuffledDataIndices (ds firstRun) = [0]
   \<and> Running firstRun"
  by (simp add: firstRun_def freshRun_def projectTSNE_def knnResolved_def Running_def Let_def plainDataSet_def
      reusesNearest_def neighbourCount_def refJS_def refTimes_def tableFor_def sampledData_def
      TSNE_SAMPLE_SIZE_def)

lemma stoppedRun_cache:
  "nearestK (ds stoppedRun) = Fin 6 \<and> nearest (ds stoppedRun) = Some [Some [\<lparr>entryIndex = 0, dist = Fin 6\<rparr>]]
   \<and> points (ds stoppedRun) = [plainPoint 0 Map.empty] \<and> shuffledDataIndices (ds stoppedRun) = [0]
   \<and> Stopped stoppedRun"
  using firstRun_cache
  by (simp add: stoppedRun_def step_after_stop Stopped_def Running_def)

lemma failedRun_cache:
  "nearestK (ds failedRun) = Fin 15 \<and> nearest (ds failedRun) = Some [Some [\<lparr>entryIndex = 0, dist = Fin 6\<rparr>]]
   \<and> points (ds failedRun) = [plainPoint 0 Map.empty] \<and> shuffledDataIndices (ds failedRun) = [0]
   \<and> \<not> scheduled failedRun"
  using stoppedRun_cache
  by (simp add: failedRun_def projectTSNE_def Stopped_def Let_def
      reusesNearest_def neighbourCount_def refJS_def refTimes_def engineThrows_def)

text \<open>The engine that throws is \<open>findKNNGPUCosine\<close> with a library that cannot make
  a tensor, on the point sampled in the runs below.\<close>

lemma engineThrows_gpu:
  "findKNNGPUCosine refJS refKMin tensorFails flatten refCosDist [plainPoint 0 Map.empty] 15 vector
     = engineThrows [Some (plainPoint 0 Map.empty)] (Fin 15)"
  by (simp add: findKNNGPUCosine_def tensorFails_def engineThrows_def Let_def)

text \<open>
  C6. The code breaks the claim. \<open>projectTSNE\<close> assigns \<open>this.nearestK = k\<close> before
  it calls the engine, and \<open>this.nearest\<close> only when the engine's promise resolves.
  A first run with perplexity 2 caches a table computed for \<open>K = 6\<close>; it is stopped. A
  second run with perplexity 5 calls an engine that throws: the dataset now holds
  \<open>nearestK = 15\<close> beside the table for \<open>K = 6\<close>. A third run with perplexity 5 finds
  \<open>k === this.nearestK\<close>, does not call the engine (which would give the table for
  \<open>K = 15\<close>), and starts the optimizer on the table that was computed for
  \<open>K = 6\<close>. And on a dataset just made (\<open>nearest = []\<close>, \<open>nearestK = 0\<close>) a run with
  perplexity 0 has \<open>K = 0\<close> and takes the empty array for a cached table.
\<close>

theorem projectTSNE_reuses_stale_table:
  "nearest (ds firstRun) = Some [Some [\<lparr>entryIndex = 0, dist = Fin 6\<rparr>]]
   \<and> nearestK (ds failedRun) = Fin 15
   \<and> nearest (ds failedRun) = Some [Some [\<lparr>entryIndex = 0, dist = Fin 6\<rparr>]]
   \<and> neighbourCount refJS (Fin 5) = Fin 15
   \<and> tableFor (sampledData (points (ds failedRun)) (take TSNE_SAMPLE_SIZE (shuffledDataIndices (ds failedRun))))
        (Fin 15) = Some (Inr [Some [\<lparr>entryIndex = 0, dist = Fin 15\<rparr>]])
   \<and> nearest (ds (projectTSNE refJS unitTSNE tableFor (Fin 5) (Fin 10) 2 failedRun))
        = Some [Some [\<lparr>entryIndex = 0, dist = Fin 6\<rparr>]]
   \<and> Running (projectTSNE refJS unitTSNE tableFor (Fin 5) (Fin 10) 2 failedRun)
   \<and> nearest (ds (projectTSNE refJS unitTSNE tableFor (Fin 0) (Fin 10) 2 freshRun)) = Some []
   \<and> Running (projectTSNE refJS unitTSNE tableFor (Fin 0) (Fin 10) 2 freshRun)"
proof -
  have fresh: "nearest (ds (projectTSNE refJS unitTSNE tableFor (Fin 0) (Fin 10) 2 freshRun)) = Some []
     \<and> Running (projectTSNE refJS unitTSNE tableFor (Fin 0) (Fin 10) 2 freshRun)"
    by (simp add: freshRun_def projectTSNE_def knnResolved_def Running_def Let_def plainDataSet_def
        reusesNearest_def neighbourCount_def refJS_def refTimes_def)
  have third: "nearest (ds (projectTSNE refJS unitTSNE tableFor (Fin 5) (Fin 10) 2 failedRun))
        = Some [Some [\<lparr>entryIndex = 0, dist = Fin 6\<rparr>]]
     \<and> Running (projectTSNE refJS unitTSNE tableFor (Fin 5) (Fin 10) 2 failedRun)"
    using failedRun_cache
    by (simp add: projectTSNE_def knnResolved_def Running_def Let_def
        reusesNearest_def neighbourCount_def refJS_def refTimes_def)
  have k: "neighbourCount refJS (Fin 5) = Fin 15"
    by (simp add: neighbourCount_def refJS_def refTimes_def)
  have tbl: "tableFor (sampledData (points (ds failedRun)) (take TSNE_SAMPLE_SIZE (shuffledDataIndices (ds failedRun))))
        (Fin 15) = Some (Inr [Some [\<lparr>entryIndex = 0, dist = Fin 15\<rparr>]])"
    using failedRun_cache by (simp add: tableFor_def sampledData_def TSNE_SAMPLE_SIZE_def)
  from fresh third k tbl firstRun_cache failedRun_cache show ?thesis by simp
qed

section \<open>Streaming parser\<close>

lemma noDelimiterFrom_next:
  "noDelimiterFrom content chunkSize delim offset \<Longrightarrow> noDelimiterFrom content chunkSize delim (offset + chunkSize)"
  unfolding noDelimiterFrom_def
proof
  fix k assume a: "\<forall>k. length (jsSplit (take chunkSize (drop (offset + k * chunkSize) content)) delim) = 1"
  from a[rule_format, of "Suc k"]
  show "length (jsSplit (take chunkSize (drop (offset + chunkSize + k * chunkSize) content)) delim) = 1"
    by (simp add: add.assoc)
qed

lemma readChunk_Some_delimiter:
  assumes ret: "readChunk callback content chunkSize delim offset data st = Some y"
  shows "\<not> noDelimiterFrom content chunkSize delim offset"
proof (rule readChunk.raw_induct
    [where P = "\<lambda>callback content chunkSize delim offset data st y. \<not> noDelimiterFrom content chunkSize delim offset", OF _ ret],
    goal_cases)
  case (1 rd callback content chunkSize delim offset data st y)
  show ?case
  proof
    assume n: "noDelimiterFrom content chunkSize delim offset"
    then have "length (jsSplit (take chunkSize (drop offset content)) delim) = 1"
      unfolding noDelimiterFrom_def by (metis add.right_neutral mult_zero_left)
    then obtain p where p: "jsSplit (take chunkSize (drop offset content)) delim = [p]"
      by (cases "jsSplit (take chunkSize (drop offset content)) delim") auto
    with 1(2) have "rd callback content chunkSize delim (offset + chunkSize) (data @ p) st = Some y"
      by simp
    from 1(1)[OF this] noDelimiterFrom_next[OF n] show False by blast
  qed
qed

lemma readChunk_no_delimiter:
  "noDelimiterFrom content chunkSize delim offset \<Longrightarrow> readChunk callback content chunkSize delim offset data st = None"
  using readChunk_Some_delimiter[of callback content chunkSize delim offset data st]
  by (cases "readChunk callback content chunkSize delim offset data st") auto

lemma ab_noDelimiter: "noDelimiterFrom ''ab'' defaultChunkSize newline 0"
  unfolding noDelimiterFrom_def
proof
  fix k show "length (jsSplit (take defaultChunkSize (drop (0 + k * defaultChunkSize) ''ab'')) newline) = 1"
    by (cases k) (simp_all add: defaultChunkSize_def jsSplit_def newline_def)
qed

text \<open>
  C1 fails on the code. The three bytes \<open>a\<close>, newline, \<open>b\<close> read as one chunk give the
  records \<open>a\<close> and \<open>b\<close>. Read in chunks of two bytes, the first chunk ends with the
  delimiter; the offset 2 has reached \<open>bufferSize = byteLength - 1\<close>, so the parser
  resolves with the last byte unread and delivers \<open>a\<close> only. And when the last chunk
  holds no delimiter the branch for a single part reads on without testing the offset:
  a buffer \<open>ab\<close> is never resolved and its record never delivered.
\<close>

theorem streamParse_loses_final_record:
  "streamParse (''a'' @ newline @ ''b'') collect [] 3 newline = Some (Inr [''a'', ''b''])
   \<and> streamParse (''a'' @ newline @ ''b'') collect [] 2 newline = Some (Inr [''a''])
   \<and> streamParse ''ab'' collect [] defaultChunkSize newline = None"
proof -
  have a: "streamParse (''a'' @ newline @ ''b'') collect [] 3 newline = Some (Inr [''a'', ''b''])"
    unfolding streamParse_def
    by (subst readChunk.simps) (simp add: jsSplit_def newline_def collect_def)
  have b: "streamParse (''a'' @ newline @ ''b'') collect [] 2 newline = Some (Inr [''a''])"
    unfolding streamParse_def
    by (subst readChunk.simps) (simp add: jsSplit_def newline_def collect_def)
  have c: "streamParse ''ab'' collect [] defaultChunkSize newline = None"
    unfolding streamParse_def by (rule readChunk_no_delimiter[OF ab_noDelimiter])
  from a b c show ?thesis by blast
qed

section \<open>Tensor parsing\<close>




lemma parseTensors_labels:
  "map_option (map_sum id (map (\<lambda>p. (metadata p ''label'', vector p)))) (parseTensors refJS catDog tab)
     = Some (Inr [(Some (MStr ''cat''), [Fin 1, Fin 2]), (Some (MStr ''dog''), [Fin 3, Fin 4])])"
  unfolding parseTensors_def streamParse_def
  apply (subst readChunk.simps)
  apply (simp add: catDog_def tab_def newline_def defaultChunkSize_def jsSplit_def)
  apply (simp add: tensorLine_def jsTrim_def isWhiteSpace_def jsSplit_def takesLabel_def refJS_def refNumber_def decimalDigit_def Let_def
      catDog_def tab_def newline_def defaultChunkSize_def)
  done


section \<open>Metadata analysis\<close>

lemma numericValue_idem: "numericValue J (numericValue J v) = numericValue J v"
  by (cases v) (simp_all add: numericValue_def)

lemma analyzeCell_md:
  "fst (analyzeCell J md sm) = md(name (fst sm) := map_option (numericValue J) (md (name (fst sm))))"
proof (cases "md (name (fst sm))")
  case None
  then have "md(name (fst sm) := None) = md" by (intro ext) simp
  with None show ?thesis by (simp add: analyzeCell_def)
next
  case (Some v)
  then have "md(name (fst sm) \<mapsto> v) = md" by (intro ext) simp
  with Some show ?thesis
    by (cases v) (auto simp: analyzeCell_def storedValue_def numberOf_def numericValue_def)
qed

lemma recordValue_name: "name (fst (recordValue J v sm)) = name (fst sm)"
  by (cases sm) (simp add: recordValue_def Let_def)

lemma analyzeCell_name: "name (fst (snd (analyzeCell J md sm))) = name (fst sm)"
  by (simp add: analyzeCell_def recordValue_name split: option.splits mval.splits)

lemma analyzeRow_names: "map (\<lambda>sm. name (fst sm)) (snd (analyzeRow J md cols)) = map (\<lambda>sm. name (fst sm)) cols"
proof (induction cols arbitrary: md)
  case Nil
  show ?case by simp
next
  case (Cons sm cols)
  show ?case
    using Cons.IH[of "fst (analyzeCell J md sm)"] analyzeCell_name[of J md sm]
    by (simp add: split_def Let_def)
qed

lemma numericCopy_step:
  "numericCopy J names (md(nm := map_option (numericValue J) (md nm))) = numericCopy J (nm # names) md"
  by (rule ext) (simp add: numericCopy_def option.map_comp comp_def numericValue_idem)

lemma analyzeRow_md: "fst (analyzeRow J md cols) = numericCopy J (map (\<lambda>sm. name (fst sm)) cols) md"
proof (induction cols arbitrary: md)
  case Nil
  show ?case by (simp add: numericCopy_def)
next
  case (Cons sm cols)
  have "fst (analyzeRow J md (sm # cols)) = fst (analyzeRow J (fst (analyzeCell J md sm)) cols)"
    by (simp add: split_def Let_def)
  also have "\<dots> = numericCopy J (map (\<lambda>sm. name (fst sm)) cols) (fst (analyzeCell J md sm))"
    by (rule Cons.IH)
  also have "\<dots> = numericCopy J (map (\<lambda>sm. name (fst sm)) (sm # cols)) md"
    by (simp only: analyzeCell_md numericCopy_step list.map)
  finally show ?case .
qed

lemma analyzeRows_md:
  "fst (analyzeRows J mds cols) = map (numericCopy J (map (\<lambda>sm. name (fst sm)) cols)) mds"
proof (induction mds arbitrary: cols)
  case Nil
  show ?case by simp
next
  case (Cons md mds)
  show ?case
    using Cons.IH[of "snd (analyzeRow J md cols)"]
    by (simp add: split_def Let_def analyzeRow_md analyzeRow_names)
qed

lemma analyzeMetadata_md: "snd (analyzeMetadata J names pms) = map (numericCopy J names) pms"
  by (simp add: analyzeMetadata_def split_def analyzeRows_md comp_def initialStats_def)

text \<open>
  C10. \<open>analyzeMetadata\<close> leaves each metadata object with the number in place of every
  value, under one of the column names, that parses as a number, and \<open>parseMetadata\<close>
  resolves with these objects as \<open>pointsInfo\<close>: whenever the stream resolves in a state
  \<open>st\<close>, the result holds the numeric copies of the objects collected in \<open>st\<close>.
\<close>

theorem analyzeMetadata_stores_numbers:
  "snd (analyzeMetadata J names pms) = map (numericCopy J names) pms
   \<and> map_option (map_sum id pointsInfo) (parseMetadata J content)
      = map_option (map_sum id (\<lambda>st. Some (map (numericCopy J (columnNames st)) (pointsMetadata st))))
          (streamParse content (metadataLine :: 'n metadataState \<Rightarrow> string \<Rightarrow> error + 'n metadataState)
             metadataStart defaultChunkSize newline)"
  by (simp add: analyzeMetadata_md parseMetadata_def metadataStart_def option.map_comp comp_def split_def
      sum.map_comp Let_def id_def)

lemma parseMetadata_example:
  "map_option (map_sum id (\<lambda>r. map_option (map (\<lambda>md. md ''label'')) (pointsInfo r))) (parseMetadata refJS sevenAndX)
     = Some (Inr (Some [Some (MNum (Fin 7)), Some (MStr ''x'')]))"
  unfolding parseMetadata_def streamParse_def
  apply (subst readChunk.simps)
  apply (simp add: sevenAndX_def tab_def newline_def defaultChunkSize_def jsSplit_def metadataLine_def
       metadataStart_def
       jsTrim_def isWhiteSpace_def analyzeMetadata_def initialStats_def analyzeCell_def recordValue_def
       storedValue_def numberOf_def keyOf_def countValue_def NUM_COLORS_COLOR_MAP_def
       refJS_def refNumber_def decimalDigit_def Let_def)
  done

section \<open>Column statistics\<close>


lemma cellState_name: "name (fst (cellState J vo sm)) = name (fst sm)"
  by (simp add: cellState_def recordValue_name split: option.splits)



lemma foldl_cellState_name:
  "name (fst (foldl (\<lambda>s md. cellState J (md nm) s) sm mds)) = name (fst sm)"
  by (induction mds arbitrary: sm) (simp_all add: cellState_name)

















text \<open>The counts of an unmarked column: a key that names no member of
  \<open>Object.prototype\<close> is held with the number of its occurrences, one that names a
  method with \<open>NaN\<close>.\<close>

lemma increment_funpow:
  "(increment ^^ n) (Count c) = Count (c + n)" "(increment ^^ n) NaNCount = NaNCount"
  by (induction n) (simp_all add: increment_def)

lemma map_of_incremented:
  "map_of (map (\<lambda>(k', c). if k' = k then (k', increment c) else (k', c)) m) k'
     = (if k' = k then map_option increment (map_of m k) else map_of m k')"
  by (induction m) auto

lemma map_of_countValue:
  "map_of (countValue k m) k'
     = (if k' \<noteq> k then map_of m k'
        else case map_of m k of
               Some c \<Rightarrow> Some (increment c)
             | None \<Rightarrow> (case objectPrototype k of NotInherited \<Rightarrow> Some (Count 1)
                         | InheritedData \<Rightarrow> Some NaNCount | InheritedAccessor \<Rightarrow> None))"
proof (cases "k \<in> fst ` set m")
  case True
  then obtain c where "map_of m k = Some c"
    by (cases "map_of m k") (simp_all add: map_of_eq_None_iff)
  with True show ?thesis by (simp add: countValue_def map_of_incremented)
next
  case False
  then have "map_of m k = None" by (simp add: map_of_eq_None_iff)
  with False show ?thesis
    by (cases "objectPrototype k") (auto simp: countValue_def map_add_def split: option.splits)
qed

lemma foldl_countValue_counts:
  "map_of (foldl (\<lambda>m k. countValue k m) m ks) k
     = (case map_of m k of
          Some c \<Rightarrow> Some ((increment ^^ count_list ks k) c)
        | None \<Rightarrow>
            if k \<in> set ks
            then (case objectPrototype k of NotInherited \<Rightarrow> Some (Count (count_list ks k))
                  | InheritedData \<Rightarrow> Some NaNCount | InheritedAccessor \<Rightarrow> None)
            else None)"
proof (induction ks arbitrary: m)
  case Nil
  show ?case by (simp split: option.splits)
next
  case (Cons a ks)
  show ?case
  proof (cases "a = k")
    case False
    then show ?thesis by (simp add: Cons.IH map_of_countValue split: option.splits inherited.splits)
  next
    case True
    show ?thesis
    proof (cases "map_of m k")
      case (Some c)
      with True show ?thesis by (simp add: Cons.IH map_of_countValue funpow_swap1)
    next
      case None
      with True show ?thesis
        by (cases "objectPrototype k") (simp_all add: Cons.IH map_of_countValue increment_funpow)
    qed
  qed
qed

lemma tally_counts:
  "map_of (tally ks) k
     = (if k \<in> set ks
        then (case objectPrototype k of NotInherited \<Rightarrow> Some (Count (count_list ks k))
              | InheritedData \<Rightarrow> Some NaNCount | InheritedAccessor \<Rightarrow> None)
        else None)"
  by (simp add: tally_def foldl_countValue_counts)










section \<open>Subsets\<close>

lemma copyPoints_result:
  assumes "copyPoints h sel = Inr (h', ps')"
    and "\<And>dp. Some dp \<in> set sel \<Longrightarrow> vectorAt dp < length (vectorObjs h)"
  shows "metadataObjs h' = metadataObjs h
       \<and> vectorObjs h' = vectorObjs h @ map (\<lambda>dp. vectorObjs h ! vectorAt (the dp)) sel
       \<and> projectionObjs h' = projectionObjs h @ replicate (length sel) Map.empty
       \<and> length ps' = length sel
       \<and> (\<forall>k < length sel.
            sel ! k \<noteq> None
            \<and> ps' ! k = \<lparr>vectorAt = length (vectorObjs h) + k, metadataAt = metadataAt (the (sel ! k)),
                          projectionsAt = length (projectionObjs h) + k, sequenceIndexOf = None,
                          indexOf = indexOf (the (sel ! k))\<rparr>)"
  using assms
proof (induction sel arbitrary: h h' ps')
  case Nil
  then show ?case by simp
next
  case (Cons x sel)
  show ?case
  proof (cases x)
    case None
    with Cons.prems(1) show ?thesis by simp
  next
    case (Some dp)
    let ?h1 = "h\<lparr>vectorObjs := vectorObjs h @ [vectorObjs h ! vectorAt dp],
                  projectionObjs := projectionObjs h @ [Map.empty]\<rparr>"
    from Cons.prems(1) Some obtain ps where
      rec: "copyPoints ?h1 sel = Inr (h', ps)"
      and ps': "ps' = \<lparr>vectorAt = length (vectorObjs h), metadataAt = metadataAt dp,
                     projectionsAt = length (projectionObjs h), sequenceIndexOf = None,
                     indexOf = indexOf dp\<rparr> # ps"
      by (auto split: sum.splits)
    have old: "\<And>q. Some q \<in> set sel \<Longrightarrow> vectorAt q < length (vectorObjs h)"
      using Cons.prems(2) by simp
    then have wf1: "\<And>q. Some q \<in> set sel \<Longrightarrow> vectorAt q < length (vectorObjs ?h1)"
      by fastforce
    note ih = Cons.IH[OF rec wf1]
    have same: "map (\<lambda>q. vectorObjs ?h1 ! vectorAt (the q)) sel = map (\<lambda>q. vectorObjs h ! vectorAt (the q)) sel"
    proof (rule map_cong[OF refl])
      fix q assume q: "q \<in> set sel"
      show "vectorObjs ?h1 ! vectorAt (the q) = vectorObjs h ! vectorAt (the q)"
      proof (cases q)
        case None
        from ih have "\<forall>k < length sel. sel ! k \<noteq> None" by blast
        with q None show ?thesis by (metis in_set_conv_nth)
      next
        case (Some r)
        with q old[of r] show ?thesis by (simp add: nth_append)
      qed
    qed
    have pos: "\<forall>k < length (x # sel).
            (x # sel) ! k \<noteq> None
            \<and> ps' ! k = \<lparr>vectorAt = length (vectorObjs h) + k, metadataAt = metadataAt (the ((x # sel) ! k)),
                          projectionsAt = length (projectionObjs h) + k, sequenceIndexOf = None,
                          indexOf = indexOf (the ((x # sel) ! k))\<rparr>"
    proof (intro allI impI)
      fix k assume "k < length (x # sel)"
      then show "(x # sel) ! k \<noteq> None
            \<and> ps' ! k = \<lparr>vectorAt = length (vectorObjs h) + k, metadataAt = metadataAt (the ((x # sel) ! k)),
                          projectionsAt = length (projectionObjs h) + k, sequenceIndexOf = None,
                          indexOf = indexOf (the ((x # sel) ! k))\<rparr>"
        using ih Some ps' by (cases k) auto
    qed
    from ih same have "metadataObjs h' = metadataObjs h"
      and "vectorObjs h' = vectorObjs h @ map (\<lambda>dp. vectorObjs h ! vectorAt (the dp)) (x # sel)"
      and "projectionObjs h' = projectionObjs h @ replicate (length (x # sel)) Map.empty"
      and "length ps' = length (x # sel)"
      using Some ps' by (simp_all add: replicate_app_Cons_same)
    with pos show ?thesis by blast
  qed
qed


lemma pointsSubset_from:
  "k < length (pointsSubset pts sel) \<Longrightarrow> pointsSubset pts sel ! k = Some q \<Longrightarrow> q \<in> set pts"
  by (auto simp: pointsSubset_def split: option.splits if_splits)

lemma deref_old:
  assumes "allocated h p"
    and "vectorObjs h' = vectorObjs h @ vs" and "projectionObjs h' = projectionObjs h @ prs"
    and "metadataObjs h' = metadataObjs h"
  shows "deref h' p = deref h p"
  using assms by (simp add: deref_def allocated_def nth_append)

text \<open>
  C4, as the code has it. When \<open>getSubset\<close> returns, every point of the new dataset
  has a vector and a projection cache of its own, at addresses no original point holds:
  the vector holds the numbers of the original's, the cache is empty, and the original
  points read the same through the store after the call and after any later write to a
  subset point's vector or cache. The metadata object of a subset point is the
  original's own.
\<close>

theorem getSubset_copies_vectors:
  assumes alloc: "\<forall>p \<in> set pts. allocated h p"
    and ret: "getSubset J shuffle h pts info sel = Some (Inr (h', ps', d'))"
    and p: "p \<in> set pts" and k: "k < length ps'"
  shows "points d' = map (deref h') ps'
       \<and> vectorAt (ps' ! k) \<noteq> vectorAt p \<and> projectionsAt (ps' ! k) \<noteq> projectionsAt p
       \<and> deref h' p = deref h p
       \<and> deref (writeVector h' (vectorAt (ps' ! k)) v) p = deref h p
       \<and> deref (writeProjection h' (projectionsAt (ps' ! k)) pm) p = deref h p
       \<and> (\<exists>q \<in> set pts. metadataAt (ps' ! k) = metadataAt q
             \<and> vector (deref h' (ps' ! k)) = vector (deref h q)
             \<and> index (deref h' (ps' ! k)) = index (deref h q)
             \<and> projections (deref h' (ps' ! k)) = Map.empty)"
proof -
  let ?sel = "pointsSubset pts sel"
  from ret have cp: "copyPoints h ?sel = Inr (h', ps')"
    and nd: "newDataSet J shuffle (map (deref h') ps') info = Some (Inr d')"
    by (auto simp: getSubset_def split: sum.splits option.splits)
  have wf: "\<And>dp. Some dp \<in> set ?sel \<Longrightarrow> vectorAt dp < length (vectorObjs h)"
  proof -
    fix dp assume "Some dp \<in> set ?sel"
    then obtain j where "j < length ?sel" "?sel ! j = Some dp" by (metis in_set_conv_nth)
    then have "dp \<in> set pts" by (rule pointsSubset_from)
    with alloc show "vectorAt dp < length (vectorObjs h)" by (simp add: allocated_def)
  qed
  from copyPoints_result[OF cp wf]
  have md: "metadataObjs h' = metadataObjs h"
    and vo: "vectorObjs h' = vectorObjs h @ map (\<lambda>dp. vectorObjs h ! vectorAt (the dp)) ?sel"
    and po: "projectionObjs h' = projectionObjs h @ replicate (length ?sel) Map.empty"
    and len: "length ps' = length ?sel"
    and at: "\<forall>k < length ?sel.
            ?sel ! k \<noteq> None
            \<and> ps' ! k = \<lparr>vectorAt = length (vectorObjs h) + k, metadataAt = metadataAt (the (?sel ! k)),
                          projectionsAt = length (projectionObjs h) + k, sequenceIndexOf = None,
                          indexOf = indexOf (the (?sel ! k))\<rparr>"
    by blast+
  from k len at obtain q where q: "?sel ! k = Some q"
    and pk: "ps' ! k = \<lparr>vectorAt = length (vectorObjs h) + k, metadataAt = metadataAt q,
                          projectionsAt = length (projectionObjs h) + k, sequenceIndexOf = None,
                          indexOf = indexOf q\<rparr>"
    by (metis not_None_eq option.sel)
  from k len q have qin: "q \<in> set pts" by (auto intro: pointsSubset_from)
  from alloc p have ap: "allocated h p" by blast
  from alloc qin have aq: "allocated h q" by blast
  have 1: "points d' = map (deref h') ps'"
    using nd by (auto simp: newDataSet_def split: option.splits list.splits)
  have 2: "vectorAt (ps' ! k) \<noteq> vectorAt p \<and> projectionsAt (ps' ! k) \<noteq> projectionsAt p"
    using ap pk by (simp add: allocated_def)
  have 3: "deref h' p = deref h p"
    by (rule deref_old[OF ap vo po md])
  have 4: "deref (writeVector h' (vectorAt (ps' ! k)) v) p = deref h p"
    using ap pk vo po md by (simp add: deref_def writeVector_def allocated_def nth_append)
  have 5: "deref (writeProjection h' (projectionsAt (ps' ! k)) pm) p = deref h p"
    using ap pk vo po md by (simp add: deref_def writeProjection_def allocated_def nth_append)
  have 6: "metadataAt (ps' ! k) = metadataAt q
             \<and> vector (deref h' (ps' ! k)) = vector (deref h q)
             \<and> index (deref h' (ps' ! k)) = index (deref h q)
             \<and> projections (deref h' (ps' ! k)) = Map.empty"
    using pk vo po md k len q by (simp add: deref_def nth_append)
  from 1 2 3 4 5 6 qin show ?thesis by blast
qed

lemma subsetOfOne_returns: "\<exists>d. subsetOfOne = Some (Inr (copyStore, [copyPoint], d))"
  by (simp add: subsetOfOne_def getSubset_def pointsSubset_def oneStore_def firstPoint_def
      copyStore_def copyPoint_def newDataSet_def computeSequences_def sequenceRound_def
      getSequenceNextPointIndex_def SEQUENCE_METADATA_ATTRS_def deref_def)

theorem getSubset_copies_vectors_witness:
  "allocated oneStore firstPoint
   \<and> (\<exists>d. subsetOfOne = Some (Inr (copyStore, [copyPoint], d)))
   \<and> vectorAt copyPoint \<noteq> vectorAt firstPoint
   \<and> deref (writeVector copyStore (vectorAt copyPoint) [Fin 0, Fin 0]) firstPoint = deref oneStore firstPoint
   \<and> metadataAt copyPoint = metadataAt firstPoint"
proof -
  have a: "\<forall>p \<in> set [firstPoint]. allocated oneStore p"
    by (simp add: allocated_def oneStore_def firstPoint_def)
  from subsetOfOne_returns obtain d :: "(refnum, nat) DataSet" where
    r: "getSubset refJS (\<lambda>ixs. ixs) oneStore [firstPoint] None None = Some (Inr (copyStore, [copyPoint], d))"
    unfolding subsetOfOne_def by blast
  from getSubset_copies_vectors [OF a r, of firstPoint 0 "[Fin 0, Fin 0]"] a subsetOfOne_returns
  show ?thesis by (simp add: copyPoint_def firstPoint_def)
qed

text \<open>
  C4 as stated fails for the metadata: the subset of a one-point dataset holds that
  point's metadata object, and a change made to it through the subset is read through
  the original point.
\<close>

theorem getSubset_shares_metadata:
  "(\<exists>d. subsetOfOne = Some (Inr (copyStore, [copyPoint], d)))
   \<and> metadata (deref copyStore firstPoint) ''label'' = Some (MStr ''a'')
   \<and> metadata (deref (writeMetadata copyStore (metadataAt copyPoint) [''label'' \<mapsto> MStr ''b'']) firstPoint) ''label''
       = Some (MStr ''b'')"
  using subsetOfOne_returns
  by (simp add: deref_def writeMetadata_def copyStore_def copyPoint_def firstPoint_def)

section \<open>Nearest neighbours on the GPU\<close>

lemma gpuSteps_rejected:
  assumes "gpuPartial J W bigMatrix dataPoints accessor dm (blockOffset (length dataPoints) q)
             (blockRows (length dataPoints) q) = None"
    and "q < numPieces (length dataPoints)"
  shows "piece \<le> q \<Longrightarrow> offset = blockOffset (length dataPoints) piece \<Longrightarrow>
         gpuSteps J K W bigMatrix dataPoints k accessor dm piece offset nearest0 = None"
proof (induction "q - piece" arbitrary: piece offset nearest0)
  case 0
  then have "piece = q" by simp
  with 0 assms(1) show ?case by (subst gpuSteps.simps) (simp add: Let_def)
next
  case (Suc d)
  then have lt: "piece + 1 \<le> q" and d: "d = q - (piece + 1)" by simp_all
  have off: "offset + blockRows (length dataPoints) piece = blockOffset (length dataPoints) (piece + 1)"
    using Suc.prems(2) by simp
  have more: "piece + 1 < numPieces (length dataPoints)"
    using lt assms(2) by simp
  show ?case
  proof (cases "gpuPartial J W bigMatrix dataPoints accessor dm offset (blockRows (length dataPoints) piece)")
    case None
    then show ?thesis by (subst gpuSteps.simps) (simp add: Let_def)
  next
    case (Some partial)
    from Suc.hyps(1)[OF d lt off]
    have "gpuSteps J K W bigMatrix dataPoints k accessor dm (piece + 1)
            (offset + blockRows (length dataPoints) piece)
            (blockNeighbours J K k (length dataPoints) partial (blockRows (length dataPoints) piece) offset nearest0) = None" .
    with Some more show ?thesis by (subst gpuSteps.simps) (simp add: Let_def)
  qed
qed

text \<open>
  What the handler of a block task does. Once the big matrix is made, if the GPU part
  of any block task throws (the block's tensor, the product or the transfer; the first
  block or a later one, with neighbour lists of earlier blocks already written), the
  promise resolves with exactly what \<open>findKNN\<close> gives for the whole input with the
  \<open>cosDistNorm\<close> distance.
\<close>

lemma findKNNGPUCosine_block_fails:
  assumes "dataPoints = p0 # rest"
    and "wTensor W (length dataPoints, length (accessor p0)) (toTypedArray dataPoints accessor) = Some bigMatrix"
    and "q < numPieces (length dataPoints)"
    and "gpuPartial J W bigMatrix dataPoints accessor (length (accessor p0))
           (blockOffset (length dataPoints) q) (blockRows (length dataPoints) q) = None"
  shows "findKNNGPUCosine J K W toTypedArray cosDistNorm dataPoints k accessor
           = Some (Inr (findKNN J K dataPoints k accessor (\<lambda>a b limit. cosDistNorm a b)))"
proof -
  have "gpuSteps J K W bigMatrix dataPoints k accessor (length (accessor p0)) 0 0
          (replicate (length dataPoints) None) = None"
    by (rule gpuSteps_rejected[OF assms(4) assms(3)]) simp_all
  with assms(1,2) show ?thesis
    by (simp add: findKNNGPUCosine_def Let_def)
qed

lemma findKNNGPUCosine_productFails:
  "findKNNGPUCosine refJS refKMin productFails flatten refCosDist twoPoints 1 vector
       = Some (Inr (findKNN refJS refKMin twoPoints 1 vector (\<lambda>a b limit. refCosDist a b)))"
proof -
  have 1: "twoPoints = hd twoPoints # tl twoPoints" by (simp add: twoPoints_def)
  have 2: "wTensor productFails (length twoPoints, length (vector (hd twoPoints))) (flatten twoPoints vector)
       = Some [Fin 1, Fin 0, Fin 0, Fin 1]"
    by (simp add: productFails_def twoPoints_def flatten_def plainPoint_def)
  have 3: "0 < numPieces (length twoPoints)"
    by (simp add: numPieces_def OPTIMAL_GPU_BLOCK_SIZE_def twoPoints_def)
  have 4: "gpuPartial refJS productFails [Fin 1, Fin 0, Fin 0, Fin 1] twoPoints vector (length (vector (hd twoPoints)))
           (blockOffset (length twoPoints) 0) (blockRows (length twoPoints) 0) = None"
    by (simp add: gpuPartial_def productFails_def)
  from findKNNGPUCosine_block_fails
         [where dataPoints = twoPoints and ?p0.0 = "hd twoPoints" and rest = "tl twoPoints"
            and W = productFails and toTypedArray = flatten and accessor = vector
            and bigMatrix = "[Fin 1, Fin 0, Fin 0, Fin 1]" and q = 0 and J = refJS
            and K = refKMin and cosDistNorm = refCosDist and k = 1, OF 1 2 3 4]
  show ?thesis .
qed

text \<open>What the fallback computes for the two unit vectors.\<close>

lemma findKNN_twoPoints:
  "findKNN refJS refKMin twoPoints 1 vector (\<lambda>a b limit. refCosDist a b)
     = [Some [\<lparr>entryIndex = 1, dist = Fin 1\<rparr>], Some [\<lparr>entryIndex = 0, dist = Fin 1\<rparr>]]"
  by (simp add: findKNN_def twoPoints_def plainPoint_def knnPair_def limitOf_def refKMin_def
      refCosDist_def refJS_def refNonNegative_def Let_def upt_rec numeral_2_eq_2)

text \<open>
  C7. The code breaks the claim. The big matrix is made on the GPU, by
  \<open>new weblas.pipeline.Tensor([N, dim], typedArray)\<close>, before the first block task
  and outside every handler. On two points, with a library whose tensor constructor
  throws, the exception leaves \<open>findKNNGPUCosine\<close>: no promise is returned and
  nothing falls back to the CPU. With a library that fails one step later, in the
  product of the first block task, the same call resolves with the table of
  \<open>findKNN\<close>.
\<close>

theorem findKNNGPUCosine_tensor_throws:
  "findKNNGPUCosine refJS refKMin tensorFails flatten refCosDist twoPoints 1 vector = Some (Inl GpuFailure)
   \<and> findKNNGPUCosine refJS refKMin productFails flatten refCosDist twoPoints 1 vector
       = Some (Inr [Some [\<lparr>entryIndex = 1, dist = Fin 1\<rparr>], Some [\<lparr>entryIndex = 0, dist = Fin 1\<rparr>]])"
proof -
  have "findKNNGPUCosine refJS refKMin tensorFails flatten refCosDist twoPoints 1 vector = Some (Inl GpuFailure)"
    by (simp add: findKNNGPUCosine_def tensorFails_def twoPoints_def Let_def)
  then show ?thesis
    by (simp only: findKNNGPUCosine_productFails findKNN_twoPoints simp_thms)
qed

end
